theory Spec2Isabelle
  imports Main "HOL-Library.Multiset"
begin

section \<open>JavaScript built-ins used by the document routes\<close>

text \<open>
  A JavaScript string is modelled as a \<open>string\<close>: one list element per code unit, so
  \<open>length\<close> is \<open>.length\<close>.  Only the space character and the three dots of the
  truncation marker are ever inspected by the routes.
\<close>

definition space :: char where
  "space = CHR '' ''"

text \<open>
  \<open>s.split(" ")\<close>: cuts at every single space character.  The result is never empty
  (\<open>"".split(" ")\<close> is \<open>[""]\<close>), two adjacent spaces give an empty piece, and tabs or
  line breaks do not separate.  The \<open>[]\<close> branch of the case is never taken.
\<close>

fun js_split :: "string \<Rightarrow> string list" where
  "js_split [] = [[]]"
| "js_split (c # cs) =
     (if c = space then [] # js_split cs
      else (case js_split cs of [] \<Rightarrow> [[c]] | w # ws \<Rightarrow> (c # w) # ws))"

text \<open>\<open>xs.join(" ")\<close> on an array of strings.\<close>

fun js_join :: "string list \<Rightarrow> string" where
  "js_join [] = []"
| "js_join [w] = w"
| "js_join (w # v # ws) = w @ [space] @ js_join (v # ws)"

text \<open>\<open>xs.slice(b, e)\<close> and \<open>s.substring(b, e)\<close> for non-negative integer arguments.\<close>

definition js_slice :: "'a list \<Rightarrow> nat \<Rightarrow> nat \<Rightarrow> 'a list" where
  "js_slice xs b e = take (e - b) (drop b xs)"

definition js_substring :: "string \<Rightarrow> nat \<Rightarrow> nat \<Rightarrow> string" where
  "js_substring s b e = take (max b e - min b e) (drop (min b e) s)"

section \<open>splitTextIntoChunks\<close>

text \<open>
  The loop \<open>for (let i = 0; i < words.length; i += chunkSize)\<close>.  With \<open>chunkSize = 0\<close>
  the index never advances and the loop does not end, so the loop is a partial function:
  \<open>None\<close> is "does not return".
\<close>

partial_function (option) chunk_loop ::
  "string list \<Rightarrow> nat \<Rightarrow> nat \<Rightarrow> string list \<Rightarrow> string list option" where
  "chunk_loop words chunkSize i chunks =
     (if i < length words
      then chunk_loop words chunkSize (i + chunkSize)
             (chunks @ [js_join (js_slice words i (i + chunkSize))])
      else Some chunks)"

definition splitTextIntoChunks :: "string \<Rightarrow> nat \<Rightarrow> string list option" where
  "splitTextIntoChunks txt chunkSize = chunk_loop (js_split txt) chunkSize 0 []"

text \<open>
  The grouping the specification describes: consecutive groups of \<open>n\<close> elements, the last
  one possibly shorter.  Used only to state what the loop computes.
\<close>

fun groups_of :: "nat \<Rightarrow> 'a list \<Rightarrow> 'a list list" where
  "groups_of n xs =
     (if n = 0 \<or> xs = [] then [] else take n xs # groups_of n (drop n xs))"

declare groups_of.simps [simp del]

section \<open>Data model\<close>

text \<open>
  Mongo ObjectIds are modelled as natural numbers; \<open>document.userId.toString() !== req.user.id\<close>
  is then disequality of ids.  Timestamps are milliseconds since the epoch.  Every route
  below runs behind the \<open>authenticate\<close> middleware, so it receives the caller's id.
\<close>

type_synonym object_id = nat
type_synonym timestamp = nat

record document =
  filename :: string
  filepath :: string
  doc_text :: string
  doc_userId :: object_id
  uploadDate :: timestamp
  fileSize :: nat
  mimeType :: string

record summary =
  sum_documentId :: object_id
  sum_userId :: object_id
  content :: string
  sum_createdAt :: timestamp
  updatedAt :: timestamp

record qa_entry =
  qa_documentId :: object_id
  qa_userId :: object_id
  question :: string
  answer :: string
  qa_createdAt :: timestamp

text \<open>
  What is sent to the hosted language model.  The fixed system instruction and the fixed
  wording around the interpolated values are left out: a request is identified by the
  (truncated) text it carries and, for question answering, the question.
\<close>

datatype groq_request = SummarizeReq string | AnswerReq string string

text \<open>
  The upstream call either throws (\<open>GroqFailure\<close>) or returns a completion whose
  \<open>choices[0]?.message?.content\<close> may be missing.
\<close>

datatype groq_response = GroqFailure string | GroqCompletion "string option"

text \<open>
  Effects are journalled in the order the code performs them, so that the order of
  effects, and their absence, can be stated.
\<close>

datatype event =
    GroqCall groq_request
  | SummarySave summary
  | QASave qa_entry
  | DocumentSave object_id
  | SummaryDeleteMany object_id object_id
  | QADeleteMany object_id object_id
  | FileWrite string
  | FileUnlink string
  | DocumentDelete object_id

record world =
  documents :: "object_id \<rightharpoonup> document"
  summaries :: "summary list"
  qaHistory :: "qa_entry list"
  files :: "string \<rightharpoonup> string"
  journal :: "event list"

text \<open>
  The hosted model is not a function of its request alone: its answer may depend on
  everything that happened before.  It is a parameter of the routes, applied to the
  journal so far and the request.
\<close>

type_synonym groq_client = "event list \<Rightarrow> groq_request \<Rightarrow> groq_response"

datatype body =
    Message string
  | DocumentJson document
  | SummaryJson string
  | SummaryDatedJson string timestamp
  | AnswerJson string
  | QAHistoryJson "qa_entry list"
  | UploadJson string object_id document
  | ErrorPage string

datatype response = Response (status: nat) (body: body)

section \<open>Database and file-system operations\<close>

definition Summary_matches :: "object_id \<Rightarrow> object_id \<Rightarrow> summary \<Rightarrow> bool" where
  "Summary_matches documentId userId s =
     (sum_documentId s = documentId \<and> sum_userId s = userId)"

definition QAHistory_matches :: "object_id \<Rightarrow> object_id \<Rightarrow> qa_entry \<Rightarrow> bool" where
  "QAHistory_matches documentId userId e =
     (qa_documentId e = documentId \<and> qa_userId e = userId)"

definition Summary_findOne :: "world \<Rightarrow> object_id \<Rightarrow> object_id \<Rightarrow> summary option" where
  "Summary_findOne st documentId userId =
     find (Summary_matches documentId userId) (summaries st)"

text \<open>Mongoose's \<open>required\<close> on a String path rejects the empty string.\<close>

definition Summary_validate :: "summary \<Rightarrow> bool" where
  "Summary_validate s = (content s \<noteq> [])"

definition QAHistory_validate :: "qa_entry \<Rightarrow> bool" where
  "QAHistory_validate e = (question e \<noteq> [] \<and> answer e \<noteq> [])"

definition Document_validate :: "document \<Rightarrow> bool" where
  "Document_validate d = (filename d \<noteq> [] \<and> filepath d \<noteq> [] \<and> doc_text d \<noteq> [])"

definition Summary_save :: "world \<Rightarrow> summary \<Rightarrow> world" where
  "Summary_save st s =
     st\<lparr>summaries := summaries st @ [s], journal := journal st @ [SummarySave s]\<rparr>"

definition QAHistory_save :: "world \<Rightarrow> qa_entry \<Rightarrow> world" where
  "QAHistory_save st e =
     st\<lparr>qaHistory := qaHistory st @ [e], journal := journal st @ [QASave e]\<rparr>"

definition Summary_deleteMany :: "world \<Rightarrow> object_id \<Rightarrow> object_id \<Rightarrow> world" where
  "Summary_deleteMany st documentId userId =
     st\<lparr>summaries := filter (\<lambda>s. \<not> Summary_matches documentId userId s) (summaries st),
        journal := journal st @ [SummaryDeleteMany documentId userId]\<rparr>"

definition QAHistory_deleteMany :: "world \<Rightarrow> object_id \<Rightarrow> object_id \<Rightarrow> world" where
  "QAHistory_deleteMany st documentId userId =
     st\<lparr>qaHistory := filter (\<lambda>e. \<not> QAHistory_matches documentId userId e) (qaHistory st),
        journal := journal st @ [QADeleteMany documentId userId]\<rparr>"

definition fs_unlinkSync :: "world \<Rightarrow> string \<Rightarrow> world" where
  "fs_unlinkSync st p =
     st\<lparr>files := (files st)(p := None), journal := journal st @ [FileUnlink p]\<rparr>"

definition Document_findByIdAndDelete :: "world \<Rightarrow> object_id \<Rightarrow> world" where
  "Document_findByIdAndDelete st documentId =
     st\<lparr>documents := (documents st)(documentId := None),
        journal := journal st @ [DocumentDelete documentId]\<rparr>"

text \<open>
  \<open>QAHistory.find(...).sort({ createdAt: -1 })\<close>: descending by creation time.  The order
  among entries with equal timestamps is not fixed by the database; the model keeps the
  later-inserted one first.
\<close>

definition sort_newest_first :: "qa_entry list \<Rightarrow> qa_entry list" where
  "sort_newest_first es = rev (sort_key qa_createdAt es)"

section \<open>The language-model helpers\<close>

text \<open>\<open>content || fallback\<close>: a missing or empty content gives the fallback.\<close>

definition or_else :: "string option \<Rightarrow> string \<Rightarrow> string" where
  "or_else c fallback = (case c of None \<Rightarrow> fallback | Some s \<Rightarrow> if s = [] then fallback else s)"

definition summarizeText :: "groq_client \<Rightarrow> world \<Rightarrow> string \<Rightarrow> (string + string) \<times> world" where
  "summarizeText groq st txt =
     (let maxLength = 8000;
          truncatedText =
            (if length txt > maxLength then js_substring txt 0 maxLength @ ''...'' else txt);
          request = SummarizeReq truncatedText;
          st' = st\<lparr>journal := journal st @ [GroqCall request]\<rparr>
      in case groq (journal st) request of
           GroqFailure msg \<Rightarrow> (Inl (''Summarization failed: '' @ msg), st')
         | GroqCompletion c \<Rightarrow> (Inr (or_else c ''Summary not available''), st'))"

definition answerQuestion ::
  "groq_client \<Rightarrow> world \<Rightarrow> string \<Rightarrow> string \<Rightarrow> (string + string) \<times> world" where
  "answerQuestion groq st context_text q =
     (let maxLength = 12000;
          truncatedContext =
            (if length context_text > maxLength
             then js_substring context_text 0 maxLength @ ''...''
             else context_text);
          request = AnswerReq truncatedContext q;
          st' = st\<lparr>journal := journal st @ [GroqCall request]\<rparr>
      in case groq (journal st) request of
           GroqFailure msg \<Rightarrow> (Inl (''Q&A failed: '' @ msg), st')
         | GroqCompletion c \<Rightarrow> (Inr (or_else c ''Answer not available''), st'))"

section \<open>The routes\<close>

definition get_document :: "world \<Rightarrow> object_id \<Rightarrow> object_id \<Rightarrow> response \<times> world" where
  "get_document st caller documentId =
     (case documents st documentId of
        None \<Rightarrow> (Response 404 (Message ''Document not found''), st)
      | Some d \<Rightarrow>
          if doc_userId d \<noteq> caller
          then (Response 403 (Message ''Unauthorized to access this document''), st)
          else (Response 200 (DocumentJson d), st))"

definition get_summary :: "world \<Rightarrow> object_id \<Rightarrow> object_id \<Rightarrow> response \<times> world" where
  "get_summary st caller documentId =
     (case documents st documentId of
        None \<Rightarrow> (Response 404 (Message ''Document not found''), st)
      | Some d \<Rightarrow>
          if doc_userId d \<noteq> caller
          then (Response 403 (Message ''Unauthorized to access this document''), st)
          else (case Summary_findOne st documentId caller of
                  None \<Rightarrow> (Response 404 (Message ''Summary not found''), st)
                | Some s \<Rightarrow> (Response 200 (SummaryDatedJson (content s) (sum_createdAt s)), st)))"

text \<open>The loop \<open>for (const chunk of textChunks)\<close>; a thrown error leaves the loop at once.\<close>

fun summarize_chunks ::
  "groq_client \<Rightarrow> world \<Rightarrow> string list \<Rightarrow> string list \<Rightarrow> (string + string list) \<times> world" where
  "summarize_chunks groq st [] acc = (Inr acc, st)"
| "summarize_chunks groq st (chunk # rest) acc =
     (case summarizeText groq st chunk of
        (Inl err, st') \<Rightarrow> (Inl err, st')
      | (Inr s, st') \<Rightarrow> summarize_chunks groq st' rest (acc @ [s]))"

text \<open>
  \<open>POST /summarize\<close>.  \<open>now\<close> is the clock when the Summary is constructed.  The result
  is \<open>None\<close> when the route never responds.
\<close>

definition post_summarize ::
  "groq_client \<Rightarrow> timestamp \<Rightarrow> world \<Rightarrow> object_id \<Rightarrow> object_id \<Rightarrow> (response \<times> world) option" where
  "post_summarize groq now st caller documentId =
     (case documents st documentId of
        None \<Rightarrow> Some (Response 404 (Message ''Document not found''), st)
      | Some d \<Rightarrow>
          if doc_userId d \<noteq> caller
          then Some (Response 403 (Message ''Unauthorized to access this document''), st)
          else (case Summary_findOne st documentId caller of
                  Some existingSummary \<Rightarrow>
                    Some (Response 200 (SummaryJson (content existingSummary)), st)
                | None \<Rightarrow>
                    (case splitTextIntoChunks (doc_text d) 1000 of
                       None \<Rightarrow> None
                     | Some textChunks \<Rightarrow>
                         (case summarize_chunks groq st textChunks [] of
                            (Inl err, st') \<Rightarrow>
                              Some (Response 500 (Message ''Summarization failed''), st')
                          | (Inr summs, st') \<Rightarrow>
                              (let combinedSummary = js_join summs;
                                   newSummary = \<lparr>sum_documentId = documentId, sum_userId = caller,
                                                 content = combinedSummary, sum_createdAt = now,
                                                 updatedAt = now\<rparr>
                               in if \<not> Summary_validate newSummary
                                  then Some (Response 500 (Message ''Summarization failed''), st')
                                  else Some (Response 200 (SummaryJson combinedSummary),
                                             Summary_save st' newSummary))))))"

text \<open>\<open>POST /ask\<close>; \<open>question\<close> is the string in the request body.\<close>

definition post_ask ::
  "groq_client \<Rightarrow> timestamp \<Rightarrow> world \<Rightarrow> object_id \<Rightarrow> object_id \<Rightarrow> string \<Rightarrow> response \<times> world" where
  "post_ask groq now st caller documentId q =
     (case documents st documentId of
        None \<Rightarrow> (Response 404 (Message ''Document not found''), st)
      | Some d \<Rightarrow>
          if doc_userId d \<noteq> caller
          then (Response 403 (Message ''Unauthorized to access this document''), st)
          else (case answerQuestion groq st (doc_text d) q of
                  (Inl err, st') \<Rightarrow> (Response 500 (Message ''Q&A failed''), st')
                | (Inr a, st') \<Rightarrow>
                    (let qaEntry = \<lparr>qa_documentId = documentId, qa_userId = caller,
                                    question = q, answer = a, qa_createdAt = now\<rparr>
                     in if \<not> QAHistory_validate qaEntry
                        then (Response 500 (Message ''Q&A failed''), st')
                        else (Response 200 (AnswerJson a), QAHistory_save st' qaEntry))))"

definition get_qa_history :: "world \<Rightarrow> object_id \<Rightarrow> object_id \<Rightarrow> response \<times> world" where
  "get_qa_history st caller documentId =
     (case documents st documentId of
        None \<Rightarrow> (Response 404 (Message ''Document not found''), st)
      | Some d \<Rightarrow>
          if doc_userId d \<noteq> caller
          then (Response 403 (Message ''Unauthorized to access this document''), st)
          else (Response 200
                  (QAHistoryJson
                     (sort_newest_first
                        (filter (QAHistory_matches documentId caller) (qaHistory st)))),
                st))"

definition delete_document :: "world \<Rightarrow> object_id \<Rightarrow> object_id \<Rightarrow> response \<times> world" where
  "delete_document st caller documentId =
     (case documents st documentId of
        None \<Rightarrow> (Response 404 (Message ''Document not found''), st)
      | Some d \<Rightarrow>
          if doc_userId d \<noteq> caller
          then (Response 403 (Message ''Unauthorized to delete this document''), st)
          else (let st1 = Summary_deleteMany st documentId caller;
                    st2 = QAHistory_deleteMany st1 documentId caller;
                    st3 = (if files st2 (filepath d) \<noteq> None
                           then fs_unlinkSync st2 (filepath d) else st2);
                    st4 = Document_findByIdAndDelete st3 documentId
                in (Response 200 (Message ''Document and related data deleted successfully''),
                    st4)))"

section \<open>Upload\<close>

record upload_file =
  originalname :: string
  mimetype :: string
  file_size :: nat
  file_data :: string

definition fileFilter :: "upload_file \<Rightarrow> string + bool" where
  "fileFilter file =
     (if mimetype file = ''application/pdf'' \<or> mimetype file = ''text/plain''
      then Inr True
      else Inl ''Only PDF and text files are allowed'')"

definition fileSizeLimit :: nat where
  "fileSizeLimit = 10 * 1024 * 1024"

text \<open>
  \<open>path.join(__dirname, "../uploads")\<close>: the directory \<open>uploads\<close> beside the directory
  of the route file.  \<open>serverDir\<close> is the absolute path of the parent of \<open>__dirname\<close>.
\<close>

definition uploadDir :: "string \<Rightarrow> string" where
  "uploadDir serverDir = serverDir @ ''/uploads''"

fun decimal :: "nat \<Rightarrow> string" where
  "decimal n =
     (if n < 10 then [char_of (48 + n)]
      else decimal (n div 10) @ [char_of (48 + n mod 10)])"

declare decimal.simps [simp del]

definition storage_filename :: "timestamp \<Rightarrow> upload_file \<Rightarrow> string" where
  "storage_filename now file = decimal now @ ''-'' @ originalname file"

text \<open>
  \<open>upload.single("file")\<close>, from multer's documented behaviour: an error passed by the
  file filter, or a file over the size limit, aborts the request with that error
  (\<open>next(err)\<close>) and nothing stays on disk; a request without a file passes with
  \<open>req.file\<close> undefined; otherwise the file is written under the upload directory and
  \<open>req.file\<close> carries its path.
\<close>

definition upload_single ::
  "string \<Rightarrow> timestamp \<Rightarrow> world \<Rightarrow> upload_file option \<Rightarrow>
     string + ((upload_file \<times> string) option \<times> world)" where
  "upload_single serverDir now st part =
     (case part of
        None \<Rightarrow> Inr (None, st)
      | Some file \<Rightarrow>
          (case fileFilter file of
             Inl err \<Rightarrow> Inl err
           | Inr accept \<Rightarrow>
               if \<not> accept then Inr (None, st)
               else if file_size file > fileSizeLimit then Inl ''File too large''
               else (let p = uploadDir serverDir @ ''/'' @ storage_filename now file
                     in Inr (Some (file, p),
                             st\<lparr>files := (files st)(p \<mapsto> file_data file),
                                journal := journal st @ [FileWrite p]\<rparr>))))"

text \<open>
  The application installs no error-handling middleware, so an error passed to \<open>next\<close>
  reaches Express's default handler: status 500 for an error without a status of its own.
\<close>

definition express_default_error :: "string \<Rightarrow> response" where
  "express_default_error err = Response 500 (ErrorPage err)"

text \<open>
  The handler of \<open>POST /upload\<close>.  \<open>pdf\<close> is the PDF text extractor (\<open>None\<close>: it throws),
  \<open>newId\<close> the ObjectId generated for the new document; the 24-hour cleanup timer is
  not modelled.
\<close>

definition upload_handler ::
  "(string \<Rightarrow> string option) \<Rightarrow> timestamp \<Rightarrow> object_id \<Rightarrow> world \<Rightarrow> object_id \<Rightarrow>
     (upload_file \<times> string) option \<Rightarrow> response \<times> world" where
  "upload_handler pdf now newId st caller req_file =
     (case req_file of
        None \<Rightarrow> (Response 500 (Message ''File upload failed''), st)
      | Some (file, filePath) \<Rightarrow>
          if mimetype file \<noteq> ''application/pdf'' \<and> mimetype file \<noteq> ''text/plain''
          then (Response 400 (Message ''Only PDF and text files are allowed''), st)
          else (case (if mimetype file = ''application/pdf''
                      then (case files st filePath of None \<Rightarrow> None | Some buf \<Rightarrow> pdf buf)
                      else if mimetype file = ''text/plain'' then files st filePath
                      else Some [])
                of None \<Rightarrow> (Response 500 (Message ''File upload failed''), st)
                 | Some extractedText \<Rightarrow>
                     (let d = \<lparr>filename = originalname file, filepath = filePath,
                              doc_text = extractedText, doc_userId = caller,
                              uploadDate = now, fileSize = file_size file,
                              mimeType = mimetype file\<rparr>
                      in if Document_validate d \<and> documents st newId = None
                         then (Response 200 (UploadJson ''File uploaded successfully'' newId d),
                               st\<lparr>documents := (documents st)(newId \<mapsto> d),
                                  journal := journal st @ [DocumentSave newId]\<rparr>)
                         else (Response 500 (Message ''File upload failed''), st))))"

definition post_upload ::
  "string \<Rightarrow> (string \<Rightarrow> string option) \<Rightarrow> timestamp \<Rightarrow> timestamp \<Rightarrow> object_id \<Rightarrow> world \<Rightarrow>
     object_id \<Rightarrow> upload_file option \<Rightarrow> response \<times> world" where
  "post_upload serverDir pdf stored_at now newId st caller part =
     (case upload_single serverDir stored_at st part of
        Inl err \<Rightarrow> (express_default_error err, st)
      | Inr (req_file, st') \<Rightarrow> upload_handler pdf now newId st' caller req_file)"

section \<open>Vocabulary for statements about the summarization loop\<close>

text \<open>The request summarizeText sends for a chunk.\<close>

definition chunk_request :: "string \<Rightarrow> groq_request" where
  "chunk_request chunk =
     SummarizeReq (if length chunk \<le> 8000 then chunk else take 8000 chunk @ ''...'')"

text \<open>The journal once the first \<open>i\<close> chunks have been sent, starting from journal \<open>h\<close>.\<close>

definition history_before :: "event list \<Rightarrow> string list \<Rightarrow> nat \<Rightarrow> event list" where
  "history_before h chunks i = h @ map (\<lambda>c. GroqCall (chunk_request c)) (take i chunks)"

text \<open>What the upstream answers to chunk \<open>i\<close> when it is sent after the chunks before it.\<close>

definition reply_to :: "groq_client \<Rightarrow> event list \<Rightarrow> string list \<Rightarrow> nat \<Rightarrow> groq_response" where
  "reply_to groq h chunks i = groq (history_before h chunks i) (chunk_request (chunks ! i))"

definition is_failure :: "groq_response \<Rightarrow> bool" where
  "is_failure r = (case r of GroqFailure msg \<Rightarrow> True | GroqCompletion c \<Rightarrow> False)"

definition summary_of_reply :: "groq_response \<Rightarrow> string" where
  "summary_of_reply r =
     (case r of GroqFailure msg \<Rightarrow> [] | GroqCompletion c \<Rightarrow> or_else c ''Summary not available'')"

section \<open>Whitespace tokenization, as the specification words it\<close>

text \<open>
  The specification speaks of tokenizing on whitespace.  These definitions follow those
  words, to be compared with what \<open>split(" ")\<close> does: the words of a text are its maximal
  runs of characters that are not whitespace.
\<close>

definition is_whitespace :: "char \<Rightarrow> bool" where
  "is_whitespace c =
     (c = CHR '' '' \<or> c = CHR 0x09 \<or> c = CHR 0x0A \<or> c = CHR 0x0B \<or> c = CHR 0x0C \<or> c = CHR 0x0D)"

fun ws_words_from :: "string \<Rightarrow> string \<Rightarrow> string list" where
  "ws_words_from cur [] = (if cur = [] then [] else [cur])"
| "ws_words_from cur (c # cs) =
     (if is_whitespace c
      then (if cur = [] then [] else [cur]) @ ws_words_from [] cs
      else ws_words_from (cur @ [c]) cs)"

definition ws_words :: "string \<Rightarrow> string list" where
  "ws_words s = ws_words_from [] s"

section \<open>Sample data\<close>

definition demo_doc :: document where
  "demo_doc = \<lparr>filename = ''a.txt'', filepath = ''/srv/app/uploads/1-a.txt'', doc_text = ''hello world'',
                doc_userId = 10, uploadDate = 1, fileSize = 11, mimeType = ''text/plain''\<rparr>"

definition demo_world :: world where
  "demo_world = \<lparr>documents = [1 \<mapsto> demo_doc], summaries = [], qaHistory = [],
                  files = [''/srv/app/uploads/1-a.txt'' \<mapsto> ''hello world''], journal = []\<rparr>"

text \<open>A text of 9000 characters.\<close>

definition long_text :: string where
  "long_text = replicate 9000 (CHR ''x'')"

text \<open>The sample world after one summary and two Q&A entries for document 1.\<close>

definition demo_summary :: summary where
  "demo_summary = \<lparr>sum_documentId = 1, sum_userId = 10, content = ''S'',
                    sum_createdAt = 2, updatedAt = 2\<rparr>"

definition demo_qa :: "timestamp \<Rightarrow> qa_entry" where
  "demo_qa t = \<lparr>qa_documentId = 1, qa_userId = 10, question = ''why?'', answer = ''A'',
                 qa_createdAt = t\<rparr>"

definition demo_world_used :: world where
  "demo_world_used = demo_world\<lparr>summaries := [demo_summary], qaHistory := [demo_qa 3, demo_qa 4]\<rparr>"

definition groq_fixed :: "string \<Rightarrow> groq_client" where
  "groq_fixed reply = (\<lambda>history request. GroqCompletion (Some reply))"

definition groq_down :: groq_client where
  "groq_down = (\<lambda>history request. GroqFailure ''upstream unavailable'')"

definition demo_world_asked :: world where
  "demo_world_asked = demo_world_used
     \<lparr>qaHistory := [demo_qa 3, demo_qa 4, demo_qa 5],
      journal := [GroqCall (AnswerReq ''hello world'' ''why?''), QASave (demo_qa 5)]\<rparr>"

text \<open>
  A document of 1001 space-separated pieces (two chunks), and an upstream whose answer
  depends on whether it has been called before.
\<close>

definition big_text :: string where
  "big_text = concat (replicate 1000 ''a '') @ ''b''"

definition big_chunks :: "string list" where
  "big_chunks = [js_join (replicate 1000 ''a''), ''b'']"

definition demo_big_doc :: document where
  "demo_big_doc = \<lparr>filename = ''big.txt'', filepath = ''/srv/app/uploads/2-big.txt'', doc_text = big_text,
                    doc_userId = 10, uploadDate = 2, fileSize = 2001, mimeType = ''text/plain''\<rparr>"

definition demo_world_big :: world where
  "demo_world_big = \<lparr>documents = [2 \<mapsto> demo_big_doc], summaries = [], qaHistory = [],
                      files = Map.empty, journal = []\<rparr>"

definition groq_by_turn :: groq_client where
  "groq_by_turn = (\<lambda>history request.
     GroqCompletion (Some (if history = [] then ''first'' else ''second'')))"

text \<open>An upstream that answers the first call and fails from the second call on.\<close>

definition groq_fails_second :: groq_client where
  "groq_fails_second = (\<lambda>history request.
     if history = [] then GroqCompletion (Some ''first'') else GroqFailure ''rate limited'')"


text \<open>A world whose only document has empty text.\<close>

definition demo_empty_doc :: document where
  "demo_empty_doc = \<lparr>filename = ''empty.txt'', filepath = ''/srv/app/uploads/3-empty.txt'', doc_text = [],
                      doc_userId = 10, uploadDate = 3, fileSize = 0, mimeType = ''text/plain''\<rparr>"

definition demo_world_empty :: world where
  "demo_world_empty = \<lparr>documents = [3 \<mapsto> demo_empty_doc], summaries = [], qaHistory = [],
                        files = Map.empty, journal = []\<rparr>"

text \<open>2500 words, one per line; and 2500 words separated by single spaces.\<close>

definition lines_text :: string where
  "lines_text = concat (replicate 2499 [CHR ''a'', CHR 0x0A]) @ ''a''"

definition spaced_text :: string where
  "spaced_text = concat (replicate 2499 ''a '') @ ''a''"

text \<open>Two uploads: a picture, and a plain-text file holding \<open>Hello world\<close>.\<close>

definition png_upload :: upload_file where
  "png_upload = \<lparr>originalname = ''cat.png'', mimetype = ''image/png'', file_size = 2048,
                  file_data = ''PNG''\<rparr>"

definition text_upload :: upload_file where
  "text_upload = \<lparr>originalname = ''hello.txt'', mimetype = ''text/plain'', file_size = 11,
                   file_data = ''Hello world''\<rparr>"

text \<open>An upstream that answers with the very text it was sent.\<close>

definition groq_echo :: groq_client where
  "groq_echo = (\<lambda>history request.
     GroqCompletion (Some (case request of SummarizeReq t \<Rightarrow> t | AnswerReq t q \<Rightarrow> t)))"

section \<open>Facts about the built-ins\<close>

lemma js_split_nonempty: "js_split s \<noteq> []"
  by (induction s) (auto split: list.splits)

lemma js_join_split: "js_join (js_split s) = s"
proof (induction s)
  case Nil
  show ?case by simp
next
  case (Cons c cs)
  obtain w ws where sp: "js_split cs = w # ws"
    using js_split_nonempty [of cs] by (cases "js_split cs") auto
  show ?case
  proof (cases "c = space")
    case True
    with Cons sp show ?thesis by simp
  next
    case False
    with Cons sp show ?thesis by (cases ws) auto
  qed
qed

lemma js_split_no_space: "w \<in> set (js_split s) \<Longrightarrow> space \<notin> set w"
proof (induction s arbitrary: w)
  case Nil
  then show ?case by simp
next
  case (Cons c cs)
  obtain v vs where sp: "js_split cs = v # vs"
    using js_split_nonempty [of cs] by (cases "js_split cs") auto
  have v: "space \<notin> set v" and vs: "\<And>u. u \<in> set vs \<Longrightarrow> space \<notin> set u"
    using Cons.IH sp by auto
  show ?case
    using Cons.prems sp v vs by (auto split: if_splits)
qed

lemma js_split_spaceless: "space \<notin> set s \<Longrightarrow> js_split s = [s]"
  by (induction s) auto

lemma js_split_append_space:
  "space \<notin> set w \<Longrightarrow> js_split (w @ space # s) = w # js_split s"
  by (induction w) auto

lemma js_split_join:
  "ws \<noteq> [] \<Longrightarrow> (\<And>w. w \<in> set ws \<Longrightarrow> space \<notin> set w) \<Longrightarrow> js_split (js_join ws) = ws"
proof (induction ws rule: js_join.induct)
  case 1
  then show ?case by simp
next
  case (2 w)
  then show ?case by (simp add: js_split_spaceless)
next
  case (3 w v ws)
  have "js_split (js_join (v # ws)) = v # ws"
    using "3.IH" "3.prems"(2) by simp
  moreover have "space \<notin> set w"
    using "3.prems"(2) by simp
  ultimately show ?case
    by (simp add: js_split_append_space)
qed

lemma js_join_append:
  "xs \<noteq> [] \<Longrightarrow> ys \<noteq> [] \<Longrightarrow> js_join (xs @ ys) = js_join xs @ [space] @ js_join ys"
proof (induction xs rule: js_join.induct)
  case 1
  then show ?case by simp
next
  case (2 w)
  then show ?case by (cases ys) auto
next
  case (3 w v ws)
  then show ?case by simp
qed

lemma js_join_eq_Nil: "js_join ws = [] \<Longrightarrow> ws = [] \<or> ws = [[]]"
  by (induction ws rule: js_join.induct) auto

section \<open>Facts about the grouping\<close>

lemma groups_of_Nil [simp]: "groups_of n [] = []"
  by (simp add: groups_of.simps)

lemma groups_of_step:
  "0 < n \<Longrightarrow> xs \<noteq> [] \<Longrightarrow> groups_of n xs = take n xs # groups_of n (drop n xs)"
  by (subst groups_of.simps) simp

lemma groups_of_eq_Nil: "0 < n \<Longrightarrow> groups_of n xs = [] \<longleftrightarrow> xs = []"
  by (subst groups_of.simps) simp

lemma concat_groups_of: "0 < n \<Longrightarrow> concat (groups_of n xs) = xs"
proof (induction n xs rule: groups_of.induct)
  case (1 n xs)
  show ?case
  proof (cases "xs = []")
    case True
    then show ?thesis by simp
  next
    case False
    with 1 show ?thesis by (simp add: groups_of_step)
  qed
qed

lemma groups_of_member:
  "0 < n \<Longrightarrow> g \<in> set (groups_of n xs) \<Longrightarrow> g \<noteq> [] \<and> length g \<le> n \<and> set g \<subseteq> set xs"
proof (induction n xs rule: groups_of.induct)
  case (1 n xs)
  show ?case
  proof (cases "xs = []")
    case True
    with "1.prems" show ?thesis by simp
  next
    case False
    with "1.prems" have "g = take n xs \<or> g \<in> set (groups_of n (drop n xs))"
      by (simp add: groups_of_step)
    then show ?thesis
    proof
      assume "g = take n xs"
      with False "1.prems"(1) show ?thesis
        by (auto dest: in_set_takeD)
    next
      assume "g \<in> set (groups_of n (drop n xs))"
      with "1.IH" False "1.prems"(1) show ?thesis
        by (auto dest: in_set_dropD)
    qed
  qed
qed

lemma groups_of_butlast:
  "0 < n \<Longrightarrow> g \<in> set (butlast (groups_of n xs)) \<Longrightarrow> length g = n"
proof (induction n xs rule: groups_of.induct)
  case (1 n xs)
  show ?case
  proof (cases "xs = []")
    case True
    with "1.prems" show ?thesis by simp
  next
    case False
    note ne = this
    show ?thesis
    proof (cases "drop n xs = []")
      case True
      with ne "1.prems" show ?thesis by (simp add: groups_of_step)
    next
      case False
      then have more: "groups_of n (drop n xs) \<noteq> []"
        using "1.prems"(1) by (simp add: groups_of_eq_Nil)
      have "n < length xs" using False by simp
      with more ne "1.prems" "1.IH" show ?thesis
        by (auto simp: groups_of_step)
    qed
  qed
qed

lemma js_join_groups_of:
  "0 < n \<Longrightarrow> ws \<noteq> [] \<Longrightarrow> js_join (map js_join (groups_of n ws)) = js_join ws"
proof (induction n ws rule: groups_of.induct)
  case (1 n ws)
  show ?case
  proof (cases "drop n ws = []")
    case True
    with "1.prems" show ?thesis by (simp add: groups_of_step)
  next
    case False
    then have more: "groups_of n (drop n ws) \<noteq> []"
      using "1.prems"(1) by (simp add: groups_of_eq_Nil)
    then obtain g gs where g: "groups_of n (drop n ws) = g # gs"
      by (cases "groups_of n (drop n ws)") auto
    have IH: "js_join (map js_join (groups_of n (drop n ws))) = js_join (drop n ws)"
      using "1.IH" "1.prems" False by simp
    have tk: "take n ws \<noteq> []" using "1.prems" by auto
    have "js_join (map js_join (groups_of n ws))
            = js_join (take n ws) @ [space] @ js_join (map js_join (groups_of n (drop n ws)))"
      using "1.prems" g by (simp add: groups_of_step)
    also have "\<dots> = js_join (take n ws) @ [space] @ js_join (drop n ws)"
      using IH by simp
    also have "\<dots> = js_join (take n ws @ drop n ws)"
      using js_join_append [OF tk False] by simp
    finally show ?thesis by simp
  qed
qed

section \<open>What the chunking loop computes\<close>

lemma chunk_loop_closed:
  "0 < n \<Longrightarrow> chunk_loop ws n i acc = Some (acc @ map js_join (groups_of n (drop i ws)))"
proof (induction "length ws - i" arbitrary: i acc rule: less_induct)
  case less
  show ?case
  proof (cases "i < length ws")
    case True
    then have ne: "drop i ws \<noteq> []" by simp
    have dec: "length ws - (i + n) < length ws - i"
      using True less.prems by arith
    have "chunk_loop ws n i acc =
            chunk_loop ws n (i + n) (acc @ [js_join (js_slice ws i (i + n))])"
      using True by (subst chunk_loop.simps) simp
    also have "\<dots> = Some ((acc @ [js_join (js_slice ws i (i + n))]) @
                        map js_join (groups_of n (drop (i + n) ws)))"
      using less.hyps [OF dec less.prems] .
    also have "\<dots> = Some (acc @ map js_join (groups_of n (drop i ws)))"
      using ne less.prems
      by (simp add: groups_of_step [of n "drop i ws"] js_slice_def add.commute)
    finally show ?thesis .
  next
    case False
    then show ?thesis
      by (subst chunk_loop.simps) simp
  qed
qed

lemma splitTextIntoChunks_closed:
  "0 < n \<Longrightarrow> splitTextIntoChunks txt n = Some (map js_join (groups_of n (js_split txt)))"
  by (simp add: splitTextIntoChunks_def chunk_loop_closed)

section \<open>A chunk size of zero\<close>

lemma chunk_loop_zero_aux:
  assumes "chunk_loop ws n i acc = Some y"
  shows "\<not> (n = 0 \<and> i < length ws)"
proof (rule chunk_loop.raw_induct
    [where P = "\<lambda>ws n i acc y. \<not> (n = 0 \<and> i < length ws)", OF _ assms], goal_cases)
  case (1 f words chunkSize i chunks y)
  show ?case
  proof
    assume a: "chunkSize = 0 \<and> i < length words"
    let ?next = "chunks @ [js_join (js_slice words i (i + chunkSize))]"
    have f: "f words chunkSize (i + chunkSize) ?next = Some y"
      using 1 a by simp
    have "\<not> (chunkSize = 0 \<and> i + chunkSize < length words)"
      using 1 f by blast
    with a show False by simp
  qed
qed

text \<open>With \<open>chunkSize = 0\<close> the loop never ends; the route always passes 1000.\<close>

lemma splitTextIntoChunks_zero_diverges: "splitTextIntoChunks s 0 = None"
proof (cases "splitTextIntoChunks s 0")
  case None
  then show ?thesis .
next
  case (Some y)
  then have "\<not> (0 < length (js_split s))"
    using chunk_loop_zero_aux [of "js_split s" 0 0 "[]" y]
    by (simp add: splitTextIntoChunks_def)
  then show ?thesis
    using js_split_nonempty [of s] by simp
qed

section \<open>Ownership\<close>

text \<open>
  Claim C1.  For an existing document and a caller who is not its owner, each of the six
  protected document operations answers 403 and returns the world as it was: documents,
  summaries, Q&A history, files and journal are all unchanged (no upstream call either).
\<close>

theorem non_owner_forbidden:
  assumes "documents st documentId = Some d" and "doc_userId d \<noteq> caller"
  shows "get_document st caller documentId =
           (Response 403 (Message ''Unauthorized to access this document''), st)
       \<and> delete_document st caller documentId =
           (Response 403 (Message ''Unauthorized to delete this document''), st)
       \<and> get_summary st caller documentId =
           (Response 403 (Message ''Unauthorized to access this document''), st)
       \<and> post_summarize groq now st caller documentId =
           Some (Response 403 (Message ''Unauthorized to access this document''), st)
       \<and> post_ask groq now st caller documentId q =
           (Response 403 (Message ''Unauthorized to access this document''), st)
       \<and> get_qa_history st caller documentId =
           (Response 403 (Message ''Unauthorized to access this document''), st)"
  using assms
  by (simp add: get_document_def delete_document_def get_summary_def post_summarize_def
      post_ask_def get_qa_history_def)

theorem non_owner_forbidden_witness:
  "documents demo_world 1 = Some demo_doc \<and> doc_userId demo_doc \<noteq> 20
   \<and> get_document demo_world 20 1 =
        (Response 403 (Message ''Unauthorized to access this document''), demo_world)
   \<and> delete_document demo_world 20 1 =
        (Response 403 (Message ''Unauthorized to delete this document''), demo_world)
   \<and> get_summary demo_world 20 1 =
        (Response 403 (Message ''Unauthorized to access this document''), demo_world)
   \<and> post_summarize (\<lambda>h r. GroqCompletion (Some ''S'')) 5 demo_world 20 1 =
        Some (Response 403 (Message ''Unauthorized to access this document''), demo_world)
   \<and> post_ask (\<lambda>h r. GroqCompletion (Some ''A'')) 5 demo_world 20 1 ''why?'' =
        (Response 403 (Message ''Unauthorized to access this document''), demo_world)
   \<and> get_qa_history demo_world 20 1 =
        (Response 403 (Message ''Unauthorized to access this document''), demo_world)"
proof -
  have d: "documents demo_world 1 = Some demo_doc"
    by (simp add: demo_world_def)
  have o: "doc_userId demo_doc \<noteq> 20"
    by (simp add: demo_doc_def)
  show ?thesis
    using d o non_owner_forbidden [OF d o] by simp
qed

section \<open>Truncation before the upstream call\<close>

lemma summarizeText_journal:
  "journal (snd (summarizeText groq st txt)) =
     journal st @ [GroqCall (SummarizeReq (if length txt \<le> 8000 then txt else take 8000 txt @ ''...''))]"
  by (simp add: summarizeText_def js_substring_def Let_def split: groq_response.splits)

lemma answerQuestion_journal:
  "journal (snd (answerQuestion groq st txt q)) =
     journal st @ [GroqCall (AnswerReq (if length txt \<le> 12000 then txt else take 12000 txt @ ''...'') q)]"
  by (simp add: answerQuestion_def js_substring_def Let_def split: groq_response.splits)

lemma summarizeText_upstream:
  "summarizeText groq st txt =
     (case groq (journal st)
             (SummarizeReq (if length txt \<le> 8000 then txt else take 8000 txt @ ''...'')) of
        GroqFailure msg \<Rightarrow>
          (Inl (''Summarization failed: '' @ msg),
           st\<lparr>journal := journal st @
              [GroqCall (SummarizeReq (if length txt \<le> 8000 then txt
                                       else take 8000 txt @ ''...''))]\<rparr>)
      | GroqCompletion c \<Rightarrow>
          (Inr (or_else c ''Summary not available''),
           st\<lparr>journal := journal st @
              [GroqCall (SummarizeReq (if length txt \<le> 8000 then txt
                                       else take 8000 txt @ ''...''))]\<rparr>))"
  by (simp add: summarizeText_def js_substring_def Let_def split: groq_response.splits)

lemma answerQuestion_upstream:
  "answerQuestion groq st txt q =
     (case groq (journal st)
             (AnswerReq (if length txt \<le> 12000 then txt else take 12000 txt @ ''...'') q) of
        GroqFailure msg \<Rightarrow>
          (Inl (''Q&A failed: '' @ msg),
           st\<lparr>journal := journal st @
              [GroqCall (AnswerReq (if length txt \<le> 12000 then txt
                                    else take 12000 txt @ ''...'') q)]\<rparr>)
      | GroqCompletion c \<Rightarrow>
          (Inr (or_else c ''Answer not available''),
           st\<lparr>journal := journal st @
              [GroqCall (AnswerReq (if length txt \<le> 12000 then txt
                                    else take 12000 txt @ ''...'') q)]\<rparr>))"
  by (simp add: answerQuestion_def js_substring_def Let_def split: groq_response.splits)

lemma post_ask_upstream:
  assumes "documents st documentId = Some d" and "doc_userId d = caller"
  shows "post_ask groq now st caller documentId q =
     (case groq (journal st)
             (AnswerReq (if length (doc_text d) \<le> 12000 then doc_text d
                         else take 12000 (doc_text d) @ ''...'') q) of
        GroqFailure msg \<Rightarrow>
          (Response 500 (Message ''Q&A failed''),
           st\<lparr>journal := journal st @
              [GroqCall (AnswerReq (if length (doc_text d) \<le> 12000 then doc_text d
                                    else take 12000 (doc_text d) @ ''...'') q)]\<rparr>)
      | GroqCompletion c \<Rightarrow>
          (if q = []
           then (Response 500 (Message ''Q&A failed''),
                 st\<lparr>journal := journal st @
                    [GroqCall (AnswerReq (if length (doc_text d) \<le> 12000 then doc_text d
                                          else take 12000 (doc_text d) @ ''...'') q)]\<rparr>)
           else (Response 200 (AnswerJson (or_else c ''Answer not available'')),
                 st\<lparr>qaHistory := qaHistory st @
                      [\<lparr>qa_documentId = documentId, qa_userId = caller, question = q,
                        answer = or_else c ''Answer not available'', qa_createdAt = now\<rparr>],
                    journal := journal st @
                      [GroqCall (AnswerReq (if length (doc_text d) \<le> 12000 then doc_text d
                                            else take 12000 (doc_text d) @ ''...'') q),
                       QASave \<lparr>qa_documentId = documentId, qa_userId = caller, question = q,
                               answer = or_else c ''Answer not available'',
                               qa_createdAt = now\<rparr>]\<rparr>)))"
  using assms
  by (simp add: post_ask_def answerQuestion_upstream Let_def QAHistory_validate_def
      QAHistory_save_def or_else_def split: groq_response.splits option.splits)

text \<open>
  Claim C4.  The text a summarization call hands to the upstream model is the chunk itself
  when it has at most 8000 characters, and otherwise its first 8000 characters followed by
  the marker \<open>...\<close> (for 9000 characters: 8003 characters, the first 8000 of the input
  and the three dots): the result of summarizeText is determined by the upstream's reply to
  exactly that request, and that request is what the journal records.  Question answering
  does the same with the ceiling 12000, on the whole text of the document, both in
  answerQuestion and in the ask route that calls it.
\<close>

theorem truncation_before_upstream:
  "summarizeText groq st txt =
     (case groq (journal st)
             (SummarizeReq (if length txt \<le> 8000 then txt else take 8000 txt @ ''...'')) of
        GroqFailure msg \<Rightarrow>
          (Inl (''Summarization failed: '' @ msg),
           st\<lparr>journal := journal st @
              [GroqCall (SummarizeReq (if length txt \<le> 8000 then txt
                                       else take 8000 txt @ ''...''))]\<rparr>)
      | GroqCompletion c \<Rightarrow>
          (Inr (or_else c ''Summary not available''),
           st\<lparr>journal := journal st @
              [GroqCall (SummarizeReq (if length txt \<le> 8000 then txt
                                       else take 8000 txt @ ''...''))]\<rparr>))
 \<and> (length txt = 9000 \<longrightarrow>
      (\<exists>sent. length sent = 8003 \<and> take 8000 sent = take 8000 txt \<and> drop 8000 sent = ''...''
         \<and> summarizeText groq st txt =
             (case groq (journal st) (SummarizeReq sent) of
                GroqFailure msg \<Rightarrow>
                  (Inl (''Summarization failed: '' @ msg),
                   st\<lparr>journal := journal st @ [GroqCall (SummarizeReq sent)]\<rparr>)
              | GroqCompletion c \<Rightarrow>
                  (Inr (or_else c ''Summary not available''),
                   st\<lparr>journal := journal st @ [GroqCall (SummarizeReq sent)]\<rparr>))))
 \<and> answerQuestion groq st txt q =
     (case groq (journal st)
             (AnswerReq (if length txt \<le> 12000 then txt else take 12000 txt @ ''...'') q) of
        GroqFailure msg \<Rightarrow>
          (Inl (''Q&A failed: '' @ msg),
           st\<lparr>journal := journal st @
              [GroqCall (AnswerReq (if length txt \<le> 12000 then txt
                                    else take 12000 txt @ ''...'') q)]\<rparr>)
      | GroqCompletion c \<Rightarrow>
          (Inr (or_else c ''Answer not available''),
           st\<lparr>journal := journal st @
              [GroqCall (AnswerReq (if length txt \<le> 12000 then txt
                                    else take 12000 txt @ ''...'') q)]\<rparr>))
 \<and> (documents st documentId = Some d \<and> doc_userId d = caller \<longrightarrow>
      post_ask groq now st caller documentId q =
        (case groq (journal st)
                (AnswerReq (if length (doc_text d) \<le> 12000 then doc_text d
                            else take 12000 (doc_text d) @ ''...'') q) of
           GroqFailure msg \<Rightarrow>
             (Response 500 (Message ''Q&A failed''),
              st\<lparr>journal := journal st @
                 [GroqCall (AnswerReq (if length (doc_text d) \<le> 12000 then doc_text d
                                       else take 12000 (doc_text d) @ ''...'') q)]\<rparr>)
         | GroqCompletion c \<Rightarrow>
             (if q = []
              then (Response 500 (Message ''Q&A failed''),
                    st\<lparr>journal := journal st @
                       [GroqCall (AnswerReq (if length (doc_text d) \<le> 12000 then doc_text d
                                             else take 12000 (doc_text d) @ ''...'') q)]\<rparr>)
              else (Response 200 (AnswerJson (or_else c ''Answer not available'')),
                    st\<lparr>qaHistory := qaHistory st @
                         [\<lparr>qa_documentId = documentId, qa_userId = caller, question = q,
                           answer = or_else c ''Answer not available'', qa_createdAt = now\<rparr>],
                       journal := journal st @
                         [GroqCall (AnswerReq (if length (doc_text d) \<le> 12000 then doc_text d
                                               else take 12000 (doc_text d) @ ''...'') q),
                          QASave \<lparr>qa_documentId = documentId, qa_userId = caller, question = q,
                                  answer = or_else c ''Answer not available'',
                                  qa_createdAt = now\<rparr>]\<rparr>))))
 \<and> (length txt \<le> 8000 \<longrightarrow>
      journal (snd (summarizeText groq st txt)) = journal st @ [GroqCall (SummarizeReq txt)])
 \<and> (8000 < length txt \<longrightarrow>
      journal (snd (summarizeText groq st txt)) =
        journal st @ [GroqCall (SummarizeReq (take 8000 txt @ ''...''))])
 \<and> (length txt = 9000 \<longrightarrow>
      (\<exists>sent. journal (snd (summarizeText groq st txt)) = journal st @ [GroqCall (SummarizeReq sent)]
         \<and> length sent = 8003 \<and> take 8000 sent = take 8000 txt \<and> drop 8000 sent = ''...''))
 \<and> (length txt \<le> 12000 \<longrightarrow>
      journal (snd (answerQuestion groq st txt q)) = journal st @ [GroqCall (AnswerReq txt q)])
 \<and> (12000 < length txt \<longrightarrow>
      journal (snd (answerQuestion groq st txt q)) =
        journal st @ [GroqCall (AnswerReq (take 12000 txt @ ''...'') q)])
 \<and> (documents st documentId = Some d \<and> doc_userId d = caller \<longrightarrow>
      (\<exists>rest. journal (snd (post_ask groq now st caller documentId q)) =
         journal st @
         GroqCall (AnswerReq (if length (doc_text d) \<le> 12000 then doc_text d
                              else take 12000 (doc_text d) @ ''...'') q) # rest))"
proof (intro conjI impI)
  show "summarizeText groq st txt =
     (case groq (journal st)
             (SummarizeReq (if length txt \<le> 8000 then txt else take 8000 txt @ ''...'')) of
        GroqFailure msg \<Rightarrow>
          (Inl (''Summarization failed: '' @ msg),
           st\<lparr>journal := journal st @
              [GroqCall (SummarizeReq (if length txt \<le> 8000 then txt
                                       else take 8000 txt @ ''...''))]\<rparr>)
      | GroqCompletion c \<Rightarrow>
          (Inr (or_else c ''Summary not available''),
           st\<lparr>journal := journal st @
              [GroqCall (SummarizeReq (if length txt \<le> 8000 then txt
                                       else take 8000 txt @ ''...''))]\<rparr>))"
    by (rule summarizeText_upstream)
next
  assume l: "length txt = 9000"
  show "\<exists>sent. length sent = 8003 \<and> take 8000 sent = take 8000 txt \<and> drop 8000 sent = ''...''
         \<and> summarizeText groq st txt =
             (case groq (journal st) (SummarizeReq sent) of
                GroqFailure msg \<Rightarrow>
                  (Inl (''Summarization failed: '' @ msg),
                   st\<lparr>journal := journal st @ [GroqCall (SummarizeReq sent)]\<rparr>)
              | GroqCompletion c \<Rightarrow>
                  (Inr (or_else c ''Summary not available''),
                   st\<lparr>journal := journal st @ [GroqCall (SummarizeReq sent)]\<rparr>))"
    apply (rule exI [of _ "take 8000 txt @ ''...''"])
    using l summarizeText_upstream [of groq st "txt"] by simp
next
  show "answerQuestion groq st txt q =
     (case groq (journal st)
             (AnswerReq (if length txt \<le> 12000 then txt else take 12000 txt @ ''...'') q) of
        GroqFailure msg \<Rightarrow>
          (Inl (''Q&A failed: '' @ msg),
           st\<lparr>journal := journal st @
              [GroqCall (AnswerReq (if length txt \<le> 12000 then txt
                                    else take 12000 txt @ ''...'') q)]\<rparr>)
      | GroqCompletion c \<Rightarrow>
          (Inr (or_else c ''Answer not available''),
           st\<lparr>journal := journal st @
              [GroqCall (AnswerReq (if length txt \<le> 12000 then txt
                                    else take 12000 txt @ ''...'') q)]\<rparr>))"
    by (rule answerQuestion_upstream)
next
  assume "documents st documentId = Some d \<and> doc_userId d = caller"
  then show "post_ask groq now st caller documentId q =
        (case groq (journal st)
                (AnswerReq (if length (doc_text d) \<le> 12000 then doc_text d
                            else take 12000 (doc_text d) @ ''...'') q) of
           GroqFailure msg \<Rightarrow>
             (Response 500 (Message ''Q&A failed''),
              st\<lparr>journal := journal st @
                 [GroqCall (AnswerReq (if length (doc_text d) \<le> 12000 then doc_text d
                                       else take 12000 (doc_text d) @ ''...'') q)]\<rparr>)
         | GroqCompletion c \<Rightarrow>
             (if q = []
              then (Response 500 (Message ''Q&A failed''),
                    st\<lparr>journal := journal st @
                       [GroqCall (AnswerReq (if length (doc_text d) \<le> 12000 then doc_text d
                                             else take 12000 (doc_text d) @ ''...'') q)]\<rparr>)
              else (Response 200 (AnswerJson (or_else c ''Answer not available'')),
                    st\<lparr>qaHistory := qaHistory st @
                         [\<lparr>qa_documentId = documentId, qa_userId = caller, question = q,
                           answer = or_else c ''Answer not available'', qa_createdAt = now\<rparr>],
                       journal := journal st @
                         [GroqCall (AnswerReq (if length (doc_text d) \<le> 12000 then doc_text d
                                               else take 12000 (doc_text d) @ ''...'') q),
                          QASave \<lparr>qa_documentId = documentId, qa_userId = caller, question = q,
                                  answer = or_else c ''Answer not available'',
                                  qa_createdAt = now\<rparr>]\<rparr>)))"
    by (simp add: post_ask_upstream)
next
  assume "length txt \<le> 8000"
  then show "journal (snd (summarizeText groq st txt)) = journal st @ [GroqCall (SummarizeReq txt)]"
    by (simp add: summarizeText_journal)
next
  assume "8000 < length txt"
  then show "journal (snd (summarizeText groq st txt)) =
        journal st @ [GroqCall (SummarizeReq (take 8000 txt @ ''...''))]"
    by (simp add: summarizeText_journal)
next
  assume "length txt = 9000"
  then show "\<exists>sent. journal (snd (summarizeText groq st txt)) = journal st @ [GroqCall (SummarizeReq sent)]
         \<and> length sent = 8003 \<and> take 8000 sent = take 8000 txt \<and> drop 8000 sent = ''...''"
    by (simp add: summarizeText_journal)
next
  assume "length txt \<le> 12000"
  then show "journal (snd (answerQuestion groq st txt q)) = journal st @ [GroqCall (AnswerReq txt q)]"
    by (simp add: answerQuestion_journal)
next
  assume "12000 < length txt"
  then show "journal (snd (answerQuestion groq st txt q)) =
        journal st @ [GroqCall (AnswerReq (take 12000 txt @ ''...'') q)]"
    by (simp add: answerQuestion_journal)
next
  assume own: "documents st documentId = Some d \<and> doc_userId d = caller"
  obtain r st1 where a: "answerQuestion groq st (doc_text d) q = (r, st1)"
    by (cases "answerQuestion groq st (doc_text d) q")
  have j: "journal st1 = journal st @
         [GroqCall (AnswerReq (if length (doc_text d) \<le> 12000 then doc_text d
                              else take 12000 (doc_text d) @ ''...'') q)]"
    using answerQuestion_journal [of groq st "doc_text d" q] a by simp
  show "\<exists>rest. journal (snd (post_ask groq now st caller documentId q)) =
         journal st @
         GroqCall (AnswerReq (if length (doc_text d) \<le> 12000 then doc_text d
                              else take 12000 (doc_text d) @ ''...'') q) # rest"
    using own a j
    by (cases r) (auto simp: post_ask_def Let_def QAHistory_save_def)
qed

theorem truncation_before_upstream_witness:
  "length long_text = 9000
 \<and> summarizeText groq_echo demo_world long_text =
     (Inr (replicate 8000 (CHR ''x'') @ ''...''),
      demo_world\<lparr>journal := [GroqCall (SummarizeReq (replicate 8000 (CHR ''x'') @ ''...''))]\<rparr>)
 \<and> answerQuestion groq_echo demo_world long_text ''why?'' =
     (Inr long_text, demo_world\<lparr>journal := [GroqCall (AnswerReq long_text ''why?'')]\<rparr>)
 \<and> documents demo_world 1 = Some demo_doc \<and> doc_userId demo_doc = 10
 \<and> post_ask groq_echo 5 demo_world 10 1 ''why?'' =
     (Response 200 (AnswerJson ''hello world''),
      demo_world
        \<lparr>qaHistory := [\<lparr>qa_documentId = 1, qa_userId = 10, question = ''why?'',
                         answer = ''hello world'', qa_createdAt = 5\<rparr>],
         journal := [GroqCall (AnswerReq ''hello world'' ''why?''),
                     QASave \<lparr>qa_documentId = 1, qa_userId = 10, question = ''why?'',
                             answer = ''hello world'', qa_createdAt = 5\<rparr>]\<rparr>)
 \<and> journal (snd (summarizeText groq_echo demo_world long_text)) =
     [GroqCall (SummarizeReq (replicate 8000 (CHR ''x'') @ ''...''))]
 \<and> journal (snd (answerQuestion groq_echo demo_world long_text ''why?'')) =
     [GroqCall (AnswerReq long_text ''why?'')]"
proof -
  have l: "length long_text = 9000"
    by (simp add: long_text_def)
  have d: "documents demo_world 1 = Some demo_doc \<and> doc_userId demo_doc = 10"
    by (simp add: demo_world_def demo_doc_def)
  have j: "journal demo_world = []" "qaHistory demo_world = []"
    "doc_text demo_doc = ''hello world''"
    by (simp_all add: demo_world_def demo_doc_def)
  have t: "take 8000 long_text = replicate 8000 (CHR ''x'')" "long_text \<noteq> []"
    by (simp_all add: long_text_def)
  note T = truncation_before_upstream
      [of groq_echo demo_world long_text "''why?''" 1 demo_doc 10 5]
  have c1: "summarizeText groq_echo demo_world long_text =
     (Inr (replicate 8000 (CHR ''x'') @ ''...''),
      demo_world\<lparr>journal := [GroqCall (SummarizeReq (replicate 8000 (CHR ''x'') @ ''...''))]\<rparr>)"
    using T [THEN conjunct1] by (simp add: l t j groq_echo_def or_else_def)
  have c2: "answerQuestion groq_echo demo_world long_text ''why?'' =
     (Inr long_text, demo_world\<lparr>journal := [GroqCall (AnswerReq long_text ''why?'')]\<rparr>)"
    using T [THEN conjunct2, THEN conjunct2, THEN conjunct1]
    by (simp add: l t j groq_echo_def or_else_def)
  have c3: "post_ask groq_echo 5 demo_world 10 1 ''why?'' =
     (Response 200 (AnswerJson ''hello world''),
      demo_world
        \<lparr>qaHistory := [\<lparr>qa_documentId = 1, qa_userId = 10, question = ''why?'',
                         answer = ''hello world'', qa_createdAt = 5\<rparr>],
         journal := [GroqCall (AnswerReq ''hello world'' ''why?''),
                     QASave \<lparr>qa_documentId = 1, qa_userId = 10, question = ''why?'',
                             answer = ''hello world'', qa_createdAt = 5\<rparr>]\<rparr>)"
    using T [THEN conjunct2, THEN conjunct2, THEN conjunct2, THEN conjunct1, rule_format, OF d]
    by (simp add: j groq_echo_def or_else_def)
  show ?thesis
    using l d c1 c2 c3 by simp
qed

section \<open>Deletion cascade\<close>

text \<open>
  Claim C7.  When the owner deletes a document, the route answers 200 and performs, in this
  order: delete every Summary of (document, caller), delete every QAHistory entry of
  (document, caller), unlink the stored file if it exists, delete the Document.  No row of
  the pair is left, all other rows stay, and afterwards fetching the summary or the Q&A
  history of that document answers 404 for every caller.
\<close>

theorem delete_cascade:
  assumes "documents st documentId = Some d" and "doc_userId d = caller"
  shows "\<exists>st'. delete_document st caller documentId =
             (Response 200 (Message ''Document and related data deleted successfully''), st')
         \<and> summaries st' = filter (\<lambda>s. \<not> Summary_matches documentId caller s) (summaries st)
         \<and> qaHistory st' = filter (\<lambda>e. \<not> QAHistory_matches documentId caller e) (qaHistory st)
         \<and> filter (Summary_matches documentId caller) (summaries st') = []
         \<and> filter (QAHistory_matches documentId caller) (qaHistory st') = []
         \<and> files st' = (files st)(filepath d := None)
         \<and> documents st' = (documents st)(documentId := None)
         \<and> journal st' = journal st
              @ [SummaryDeleteMany documentId caller, QADeleteMany documentId caller]
              @ (if files st (filepath d) \<noteq> None then [FileUnlink (filepath d)] else [])
              @ [DocumentDelete documentId]
         \<and> get_summary st' u documentId = (Response 404 (Message ''Document not found''), st')
         \<and> get_qa_history st' u documentId =
             (Response 404 (Message ''Document not found''), st')"
proof -
  have f: "filter (Summary_matches documentId caller)
             (filter (\<lambda>s. \<not> Summary_matches documentId caller s) (summaries st)) = []"
    "filter (QAHistory_matches documentId caller)
             (filter (\<lambda>e. \<not> QAHistory_matches documentId caller e) (qaHistory st)) = []"
    by (simp_all add: filter_empty_conv)
  show ?thesis
    using assms f
    by (auto simp: delete_document_def Let_def Summary_deleteMany_def QAHistory_deleteMany_def
        fs_unlinkSync_def Document_findByIdAndDelete_def get_summary_def get_qa_history_def)
qed

theorem delete_cascade_witness:
  "documents demo_world_used 1 = Some demo_doc \<and> doc_userId demo_doc = 10
   \<and> (\<exists>st'. delete_document demo_world_used 10 1 =
          (Response 200 (Message ''Document and related data deleted successfully''), st')
        \<and> summaries st' = [] \<and> qaHistory st' = [] \<and> files st' ''/srv/app/uploads/1-a.txt'' = None
        \<and> documents st' 1 = None
        \<and> journal st' = [SummaryDeleteMany 1 10, QADeleteMany 1 10,
                          FileUnlink ''/srv/app/uploads/1-a.txt'', DocumentDelete 1]
        \<and> get_summary st' 10 1 = (Response 404 (Message ''Document not found''), st')
        \<and> get_qa_history st' 10 1 = (Response 404 (Message ''Document not found''), st'))"
proof -
  have d: "documents demo_world_used 1 = Some demo_doc"
    by (simp add: demo_world_used_def demo_world_def)
  have o: "doc_userId demo_doc = 10"
    by (simp add: demo_doc_def)
  have w: "summaries demo_world_used = [demo_summary]"
    "qaHistory demo_world_used = [demo_qa 3, demo_qa 4]"
    "files demo_world_used = [''/srv/app/uploads/1-a.txt'' \<mapsto> ''hello world'']"
    "journal demo_world_used = []" "filepath demo_doc = ''/srv/app/uploads/1-a.txt''"
    "Summary_matches 1 10 demo_summary" "\<And>t. QAHistory_matches 1 10 (demo_qa t)"
    by (simp_all add: demo_world_used_def demo_world_def demo_doc_def demo_summary_def
        demo_qa_def Summary_matches_def QAHistory_matches_def)
  from delete_cascade [OF d o] obtain st' where
    s: "delete_document demo_world_used 10 1 =
          (Response 200 (Message ''Document and related data deleted successfully''), st')
        \<and> summaries st' = filter (\<lambda>s. \<not> Summary_matches 1 10 s) (summaries demo_world_used)
        \<and> qaHistory st' = filter (\<lambda>e. \<not> QAHistory_matches 1 10 e) (qaHistory demo_world_used)
        \<and> filter (Summary_matches 1 10) (summaries st') = []
        \<and> filter (QAHistory_matches 1 10) (qaHistory st') = []
        \<and> files st' = (files demo_world_used)(filepath demo_doc := None)
        \<and> documents st' = (documents demo_world_used)(1 := None)
        \<and> journal st' = journal demo_world_used
              @ [SummaryDeleteMany 1 10, QADeleteMany 1 10]
              @ (if files demo_world_used (filepath demo_doc) \<noteq> None
                 then [FileUnlink (filepath demo_doc)] else [])
              @ [DocumentDelete 1]
        \<and> get_summary st' 10 1 = (Response 404 (Message ''Document not found''), st')
        \<and> get_qa_history st' 10 1 = (Response 404 (Message ''Document not found''), st')"
    by blast
  have "delete_document demo_world_used 10 1 =
          (Response 200 (Message ''Document and related data deleted successfully''), st')
        \<and> summaries st' = [] \<and> qaHistory st' = [] \<and> files st' ''/srv/app/uploads/1-a.txt'' = None
        \<and> documents st' 1 = None
        \<and> journal st' = [SummaryDeleteMany 1 10, QADeleteMany 1 10,
                          FileUnlink ''/srv/app/uploads/1-a.txt'', DocumentDelete 1]
        \<and> get_summary st' 10 1 = (Response 404 (Message ''Document not found''), st')
        \<and> get_qa_history st' 10 1 = (Response 404 (Message ''Document not found''), st')"
    using s w by simp
  then show ?thesis
    using d o by blast
qed

section \<open>Asking questions and reading the history\<close>

lemma sort_newest_first_sorted:
  "sorted_wrt (\<lambda>a b. qa_createdAt b \<le> qa_createdAt a) (sort_newest_first es)"
proof -
  have "sorted (map qa_createdAt (sort_key qa_createdAt es))"
    by (rule sorted_sort_key)
  then have "sorted_wrt (\<lambda>a b. qa_createdAt a \<le> qa_createdAt b) (sort_key qa_createdAt es)"
    by (simp add: sorted_map)
  then show ?thesis
    by (simp add: sort_newest_first_def sorted_wrt_rev)
qed

lemma sort_newest_first_mset: "mset (sort_newest_first es) = mset es"
  by (simp add: sort_newest_first_def)

lemma post_ask_ok:
  assumes "post_ask groq now st caller documentId q = (Response 200 (AnswerJson a), st')"
  shows "\<exists>d st1. documents st documentId = Some d \<and> doc_userId d = caller
           \<and> answerQuestion groq st (doc_text d) q = (Inr a, st1)
           \<and> q \<noteq> [] \<and> a \<noteq> []
           \<and> st' = QAHistory_save st1
                 \<lparr>qa_documentId = documentId, qa_userId = caller, question = q, answer = a,
                  qa_createdAt = now\<rparr>"
proof (cases "documents st documentId")
  case None
  with assms show ?thesis by (simp add: post_ask_def)
next
  case (Some d)
  obtain r st1 where a: "answerQuestion groq st (doc_text d) q = (r, st1)"
    by (cases "answerQuestion groq st (doc_text d) q")
  show ?thesis
    using assms Some a
    by (cases r) (auto simp: post_ask_def Let_def QAHistory_validate_def split: if_splits)
qed

lemma answerQuestion_keeps:
  "answerQuestion groq st txt q = (r, st1) \<Longrightarrow>
     documents st1 = documents st \<and> summaries st1 = summaries st
     \<and> qaHistory st1 = qaHistory st \<and> files st1 = files st"
  by (auto simp: answerQuestion_def Let_def split: groq_response.splits)

text \<open>
  Claim C8.  A call of ask that answers 200 with answer \<open>a\<close> appends exactly one entry
  (document, caller, question, \<open>a\<close>, creation time) to the Q&A history, whatever the
  history already holds: the number of entries with this question and answer for the pair
  grows by one.  For the owner, the history route answers 200 with the entries of
  (document, caller), each exactly once, ordered by creation time, newest first.
\<close>

theorem ask_appends_history_newest_first:
  "(post_ask groq now st caller documentId q = (Response 200 (AnswerJson a), st') \<longrightarrow>
      qaHistory st' = qaHistory st @
        [\<lparr>qa_documentId = documentId, qa_userId = caller, question = q, answer = a,
          qa_createdAt = now\<rparr>]
      \<and> length (filter (\<lambda>e. QAHistory_matches documentId caller e \<and> question e = q \<and> answer e = a)
                  (qaHistory st'))
          = Suc (length (filter (\<lambda>e. QAHistory_matches documentId caller e \<and> question e = q
                                     \<and> answer e = a) (qaHistory st)))
      \<and> documents st' = documents st \<and> summaries st' = summaries st)
 \<and> (documents w documentId = Some d \<and> doc_userId d = caller \<longrightarrow>
      (\<exists>rs. get_qa_history w caller documentId = (Response 200 (QAHistoryJson rs), w)
          \<and> sorted_wrt (\<lambda>x y. qa_createdAt y \<le> qa_createdAt x) rs
          \<and> mset rs = mset (filter (QAHistory_matches documentId caller) (qaHistory w))))"
proof (intro conjI impI)
  assume ok: "post_ask groq now st caller documentId q = (Response 200 (AnswerJson a), st')"
  from post_ask_ok [OF ok] obtain d0 :: document and st1 where
    a: "answerQuestion groq st (doc_text d0) q = (Inr a, st1)" and
    s: "st' = QAHistory_save st1
                 \<lparr>qa_documentId = documentId, qa_userId = caller, question = q, answer = a,
                  qa_createdAt = now\<rparr>"
    by blast
  note k = answerQuestion_keeps [OF a]
  show "qaHistory st' = qaHistory st @
        [\<lparr>qa_documentId = documentId, qa_userId = caller, question = q, answer = a,
          qa_createdAt = now\<rparr>]"
    using s k by (simp add: QAHistory_save_def)
  then show "length (filter (\<lambda>e. QAHistory_matches documentId caller e \<and> question e = q \<and> answer e = a)
                  (qaHistory st'))
          = Suc (length (filter (\<lambda>e. QAHistory_matches documentId caller e \<and> question e = q
                                     \<and> answer e = a) (qaHistory st)))"
    by (simp add: QAHistory_matches_def)
  show "documents st' = documents st" "summaries st' = summaries st"
    using s k by (simp_all add: QAHistory_save_def)
next
  assume "documents w documentId = Some d \<and> doc_userId d = caller"
  then show "\<exists>rs. get_qa_history w caller documentId = (Response 200 (QAHistoryJson rs), w)
          \<and> sorted_wrt (\<lambda>x y. qa_createdAt y \<le> qa_createdAt x) rs
          \<and> mset rs = mset (filter (QAHistory_matches documentId caller) (qaHistory w))"
    by (simp add: get_qa_history_def sort_newest_first_sorted sort_newest_first_mset)
qed

theorem ask_appends_history_newest_first_witness:
  "post_ask (groq_fixed ''A'') 5 demo_world_used 10 1 ''why?'' =
     (Response 200 (AnswerJson ''A''), demo_world_asked)
 \<and> qaHistory demo_world_used = [demo_qa 3, demo_qa 4]
 \<and> qaHistory demo_world_asked = [demo_qa 3, demo_qa 4, demo_qa 5]
 \<and> length (filter (\<lambda>e. QAHistory_matches 1 10 e \<and> question e = ''why?'' \<and> answer e = ''A'')
              (qaHistory demo_world_asked)) = 3
 \<and> documents demo_world_asked 1 = Some demo_doc \<and> doc_userId demo_doc = 10
 \<and> get_qa_history demo_world_asked 10 1 =
     (Response 200 (QAHistoryJson [demo_qa 5, demo_qa 4, demo_qa 3]), demo_world_asked)
 \<and> sorted_wrt (\<lambda>x y. qa_createdAt y \<le> qa_createdAt x) [demo_qa 5, demo_qa 4, demo_qa 3]"
proof -
  have ask: "post_ask (groq_fixed ''A'') 5 demo_world_used 10 1 ''why?'' =
     (Response 200 (AnswerJson ''A''), demo_world_asked)"
    by (simp add: post_ask_def answerQuestion_def groq_fixed_def or_else_def Let_def
        QAHistory_validate_def QAHistory_save_def demo_world_asked_def demo_world_used_def
        demo_world_def demo_doc_def demo_qa_def)
  have own: "documents demo_world_asked 1 = Some demo_doc \<and> doc_userId demo_doc = 10"
    by (simp add: demo_world_asked_def demo_world_used_def demo_world_def demo_doc_def)
  have h: "qaHistory demo_world_used = [demo_qa 3, demo_qa 4]"
    "qaHistory demo_world_asked = [demo_qa 3, demo_qa 4, demo_qa 5]"
    by (simp_all add: demo_world_asked_def demo_world_used_def)
  have m: "\<And>t. QAHistory_matches 1 10 (demo_qa t)" "\<And>t. qa_createdAt (demo_qa t) = t"
    "\<And>t. question (demo_qa t) = ''why?''" "\<And>t. answer (demo_qa t) = ''A''"
    by (simp_all add: QAHistory_matches_def demo_qa_def)
  have g: "get_qa_history demo_world_asked 10 1 =
     (Response 200 (QAHistoryJson [demo_qa 5, demo_qa 4, demo_qa 3]), demo_world_asked)"
    using own h m by (simp add: get_qa_history_def sort_newest_first_def)
  note T = ask_appends_history_newest_first
      [of "groq_fixed ''A''" 5 demo_world_used 10 1 "''why?''" "''A''" demo_world_asked
          demo_world_asked demo_doc]
  have c1: "length (filter (\<lambda>e. QAHistory_matches 1 10 e \<and> question e = ''why?'' \<and> answer e = ''A'')
                  (qaHistory demo_world_asked))
          = Suc (length (filter (\<lambda>e. QAHistory_matches 1 10 e \<and> question e = ''why?''
                                     \<and> answer e = ''A'') (qaHistory demo_world_used)))"
    using T ask by blast
  have c2: "\<exists>rs. get_qa_history demo_world_asked 10 1 = (Response 200 (QAHistoryJson rs), demo_world_asked)
          \<and> sorted_wrt (\<lambda>x y. qa_createdAt y \<le> qa_createdAt x) rs"
    using T own by blast
  have s: "sorted_wrt (\<lambda>x y. qa_createdAt y \<le> qa_createdAt x) [demo_qa 5, demo_qa 4, demo_qa 3]"
    using c2 unfolding g by (elim exE conjE) simp
  have n: "length (filter (\<lambda>e. QAHistory_matches 1 10 e \<and> question e = ''why?'' \<and> answer e = ''A'')
              (qaHistory demo_world_asked)) = 3"
    using c1 unfolding h by (simp add: QAHistory_matches_def demo_qa_def)
  show ?thesis
    using ask own h g s n by blast
qed

section \<open>The summarization loop\<close>

lemma summarizeText_eq:
  "summarizeText groq st txt =
     (case groq (journal st) (chunk_request txt) of
        GroqFailure msg \<Rightarrow>
          (Inl (''Summarization failed: '' @ msg),
           st\<lparr>journal := journal st @ [GroqCall (chunk_request txt)]\<rparr>)
      | GroqCompletion c \<Rightarrow>
          (Inr (or_else c ''Summary not available''),
           st\<lparr>journal := journal st @ [GroqCall (chunk_request txt)]\<rparr>))"
  by (simp add: summarizeText_def chunk_request_def js_substring_def Let_def
      split: groq_response.splits)

lemma or_else_nonempty: "fallback \<noteq> [] \<Longrightarrow> or_else c fallback \<noteq> []"
  by (simp add: or_else_def split: option.splits)

lemma reply_to_0: "reply_to groq h (c # cs) 0 = groq h (chunk_request c)"
  by (simp add: reply_to_def history_before_def)

lemma reply_to_Suc:
  "reply_to groq h (c # cs) (Suc i) = reply_to groq (h @ [GroqCall (chunk_request c)]) cs i"
  by (simp add: reply_to_def history_before_def)

lemma summarize_chunks_all_ok:
  "(\<And>i. i < length chunks \<Longrightarrow> \<not> is_failure (reply_to groq (journal st) chunks i)) \<Longrightarrow>
   summarize_chunks groq st chunks acc =
     (Inr (acc @ map (\<lambda>i. summary_of_reply (reply_to groq (journal st) chunks i))
                   [0..<length chunks]),
      st\<lparr>journal := journal st @ map (\<lambda>c. GroqCall (chunk_request c)) chunks\<rparr>)"
proof (induction chunks arbitrary: st acc)
  case Nil
  show ?case by simp
next
  case (Cons c cs)
  let ?st1 = "st\<lparr>journal := journal st @ [GroqCall (chunk_request c)]\<rparr>"
  have "\<not> is_failure (reply_to groq (journal st) (c # cs) 0)"
    using Cons.prems [of 0] by simp
  then obtain x where x: "groq (journal st) (chunk_request c) = GroqCompletion x"
    by (cases "groq (journal st) (chunk_request c)") (simp_all add: reply_to_0 is_failure_def)
  have first: "summarizeText groq st c = (Inr (or_else x ''Summary not available''), ?st1)"
    by (simp add: summarizeText_eq x)
  have rest_ok: "\<not> is_failure (reply_to groq (journal ?st1) cs i)" if "i < length cs" for i
    using Cons.prems [of "Suc i"] that by (simp add: reply_to_Suc)
  have IH: "summarize_chunks groq ?st1 cs (acc @ [or_else x ''Summary not available'']) =
     (Inr ((acc @ [or_else x ''Summary not available'']) @
           map (\<lambda>i. summary_of_reply (reply_to groq (journal ?st1) cs i)) [0..<length cs]),
      ?st1\<lparr>journal := journal ?st1 @ map (\<lambda>c. GroqCall (chunk_request c)) cs\<rparr>)"
    by (rule Cons.IH) (rule rest_ok)
  have idx: "map (\<lambda>i. summary_of_reply (reply_to groq (journal st) (c # cs) i)) [0..<length (c # cs)]
       = or_else x ''Summary not available'' #
         map (\<lambda>i. summary_of_reply (reply_to groq (journal ?st1) cs i)) [0..<length cs]"
    by (simp add: map_upt_Suc reply_to_0 reply_to_Suc x summary_of_reply_def del: upt_Suc)
  show ?case
    unfolding idx using first IH by simp
qed

lemma summarize_chunks_first_failure:
  "k < length chunks \<Longrightarrow> is_failure (reply_to groq (journal st) chunks k) \<Longrightarrow>
   (\<And>i. i < k \<Longrightarrow> \<not> is_failure (reply_to groq (journal st) chunks i)) \<Longrightarrow>
   \<exists>err. summarize_chunks groq st chunks acc =
     (Inl err,
      st\<lparr>journal := journal st @ map (\<lambda>c. GroqCall (chunk_request c)) (take (Suc k) chunks)\<rparr>)"
proof (induction chunks arbitrary: st acc k)
  case Nil
  then show ?case by simp
next
  case (Cons c cs)
  let ?st1 = "st\<lparr>journal := journal st @ [GroqCall (chunk_request c)]\<rparr>"
  show ?case
  proof (cases k)
    case 0
    with Cons.prems(2) obtain msg where "groq (journal st) (chunk_request c) = GroqFailure msg"
      by (cases "groq (journal st) (chunk_request c)") (simp_all add: reply_to_0 is_failure_def)
    with 0 show ?thesis
      by (simp add: summarizeText_eq)
  next
    case (Suc k')
    have "\<not> is_failure (reply_to groq (journal st) (c # cs) 0)"
      using Cons.prems(3) [of 0] Suc by simp
    then obtain x where x: "groq (journal st) (chunk_request c) = GroqCompletion x"
      by (cases "groq (journal st) (chunk_request c)") (simp_all add: reply_to_0 is_failure_def)
    have first: "summarizeText groq st c = (Inr (or_else x ''Summary not available''), ?st1)"
      by (simp add: summarizeText_eq x)
    have k': "k' < length cs"
      using Cons.prems(1) Suc by simp
    have fail: "is_failure (reply_to groq (journal ?st1) cs k')"
      using Cons.prems(2) Suc by (simp add: reply_to_Suc)
    have before: "\<not> is_failure (reply_to groq (journal ?st1) cs i)" if "i < k'" for i
      using Cons.prems(3) [of "Suc i"] that Suc by (simp add: reply_to_Suc)
    from Cons.IH [OF k' fail before, of "acc @ [or_else x ''Summary not available'']"]
    obtain err where
      "summarize_chunks groq ?st1 cs (acc @ [or_else x ''Summary not available'']) =
         (Inl err, ?st1\<lparr>journal := journal ?st1 @
                             map (\<lambda>c. GroqCall (chunk_request c)) (take (Suc k') cs)\<rparr>)"
      by blast
    with first Suc show ?thesis by simp
  qed
qed

lemma summarize_chunks_shape:
  "\<exists>n r. summarize_chunks groq st chunks acc =
            (r, st\<lparr>journal := journal st @ map (\<lambda>c. GroqCall (chunk_request c)) (take n chunks)\<rparr>)
         \<and> (if chunks = [] then n = 0 else 0 < n)"
proof (induction chunks arbitrary: st acc)
  case Nil
  show ?case by simp
next
  case (Cons c cs)
  let ?st1 = "st\<lparr>journal := journal st @ [GroqCall (chunk_request c)]\<rparr>"
  show ?case
  proof (cases "groq (journal st) (chunk_request c)")
    case (GroqFailure msg)
    then have "summarize_chunks groq st (c # cs) acc =
        (Inl (''Summarization failed: '' @ msg),
         st\<lparr>journal := journal st @ map (\<lambda>c. GroqCall (chunk_request c)) (take (Suc 0) (c # cs))\<rparr>)"
      by (simp add: summarizeText_eq)
    then show ?thesis by (intro exI [of _ "Suc 0"]) simp
  next
    case (GroqCompletion x)
    then have first: "summarizeText groq st c = (Inr (or_else x ''Summary not available''), ?st1)"
      by (simp add: summarizeText_eq)
    from Cons.IH [of ?st1 "acc @ [or_else x ''Summary not available'']"]
    obtain n r where
      "summarize_chunks groq ?st1 cs (acc @ [or_else x ''Summary not available'']) =
         (r, ?st1\<lparr>journal := journal ?st1 @ map (\<lambda>c. GroqCall (chunk_request c)) (take n cs)\<rparr>)"
      by blast
    with first have "summarize_chunks groq st (c # cs) acc =
        (r, st\<lparr>journal := journal st @
                   map (\<lambda>c. GroqCall (chunk_request c)) (take (Suc n) (c # cs))\<rparr>)"
      by simp
    then show ?thesis by (intro exI [of _ "Suc n"]) simp
  qed
qed

lemma splitTextIntoChunks_nonempty:
  assumes "0 < n" and "splitTextIntoChunks txt n = Some chunks"
  shows "chunks \<noteq> []"
  using assms js_split_nonempty [of "txt"]
  by (auto simp: splitTextIntoChunks_closed groups_of_eq_Nil)

lemma js_join_nonempty:
  "ws \<noteq> [] \<Longrightarrow> (\<And>w. w \<in> set ws \<Longrightarrow> w \<noteq> []) \<Longrightarrow> js_join ws \<noteq> []"
  using js_join_eq_Nil [of ws] by auto

lemma post_summarize_all_ok:
  fixes now :: timestamp
  assumes doc: "documents st documentId = Some d" and own: "doc_userId d = caller"
    and none: "Summary_findOne st documentId caller = None"
    and chunks: "splitTextIntoChunks (doc_text d) 1000 = Some chunks"
    and ok: "\<And>i. i < length chunks \<Longrightarrow> \<not> is_failure (reply_to groq (journal st) chunks i)"
  defines "combined \<equiv>
      js_join (map (\<lambda>i. summary_of_reply (reply_to groq (journal st) chunks i)) [0..<length chunks])"
  defines "row \<equiv> \<lparr>sum_documentId = documentId, sum_userId = caller, content = combined,
                    sum_createdAt = now, updatedAt = now\<rparr>"
  shows "post_summarize groq now st caller documentId =
           Some (Response 200 (SummaryJson combined),
                 st\<lparr>summaries := summaries st @ [row],
                    journal := journal st @ map (\<lambda>c. GroqCall (chunk_request c)) chunks
                               @ [SummarySave row]\<rparr>)"
proof -
  have ne: "chunks \<noteq> []"
    using splitTextIntoChunks_nonempty [OF _ chunks] by simp
  have each: "summary_of_reply (reply_to groq (journal st) chunks i) \<noteq> []"
    if "i < length chunks" for i
    using ok [OF that]
    by (cases "reply_to groq (journal st) chunks i")
       (simp_all add: is_failure_def summary_of_reply_def or_else_nonempty)
  have "combined \<noteq> []"
    unfolding combined_def
    by (rule js_join_nonempty) (use ne each in auto)
  then have valid: "Summary_validate row"
    by (simp add: Summary_validate_def row_def)
  show ?thesis
    using doc own none chunks valid summarize_chunks_all_ok [of chunks groq st "[]", OF ok]
    by (simp add: post_summarize_def Let_def Summary_save_def combined_def row_def)
qed

text \<open>
  Claim C5.  When the document exists, the caller owns it, no Summary exists for the pair
  and every upstream call succeeds, summarize sends exactly one request per chunk, in
  chunk order and one after the other (the reply to chunk \<open>i\<close> is the upstream's answer
  given the journal that already holds the requests for the chunks before \<open>i\<close>), and
  nothing else upstream.  The summary it returns with status 200 and the content of the one
  Summary row it appends are both the per-chunk summaries joined with single spaces in
  chunk order.
\<close>

theorem summarize_joins_chunk_summaries:
  assumes "documents st documentId = Some d" and "doc_userId d = caller"
    and "Summary_findOne st documentId caller = None"
    and "splitTextIntoChunks (doc_text d) 1000 = Some chunks"
    and "\<forall>i<length chunks. \<not> is_failure (reply_to groq (journal st) chunks i)"
  shows "\<exists>st' per_chunk.
           post_summarize groq now st caller documentId =
             Some (Response 200 (SummaryJson (js_join per_chunk)), st')
         \<and> length per_chunk = length chunks
         \<and> (\<forall>i<length chunks.
               per_chunk ! i = summary_of_reply
                 (groq (journal st @ map (\<lambda>c. GroqCall (chunk_request c)) (take i chunks))
                       (chunk_request (chunks ! i))))
         \<and> journal st' = journal st @ map (\<lambda>c. GroqCall (chunk_request c)) chunks
              @ [SummarySave \<lparr>sum_documentId = documentId, sum_userId = caller,
                              content = js_join per_chunk, sum_createdAt = now, updatedAt = now\<rparr>]
         \<and> summaries st' = summaries st
              @ [\<lparr>sum_documentId = documentId, sum_userId = caller,
                  content = js_join per_chunk, sum_createdAt = now, updatedAt = now\<rparr>]
         \<and> documents st' = documents st \<and> qaHistory st' = qaHistory st \<and> files st' = files st"
proof -
  let ?per = "map (\<lambda>i. summary_of_reply (reply_to groq (journal st) chunks i)) [0..<length chunks]"
  let ?row = "\<lparr>sum_documentId = documentId, sum_userId = caller, content = js_join ?per,
               sum_createdAt = now, updatedAt = now\<rparr>"
  let ?st' = "st\<lparr>summaries := summaries st @ [?row],
                 journal := journal st @ map (\<lambda>c. GroqCall (chunk_request c)) chunks
                            @ [SummarySave ?row]\<rparr>"
  have run: "post_summarize groq now st caller documentId =
               Some (Response 200 (SummaryJson (js_join ?per)), ?st')"
    using post_summarize_all_ok [OF assms(1-4)] assms(5) by simp
  have nth: "\<forall>i<length chunks.
               ?per ! i = summary_of_reply
                 (groq (journal st @ map (\<lambda>c. GroqCall (chunk_request c)) (take i chunks))
                       (chunk_request (chunks ! i)))"
    by (simp add: reply_to_def history_before_def)
  show ?thesis
    apply (rule exI [of _ ?st'])
    apply (rule exI [of _ ?per])
    using run nth by simp
qed
lemma js_split_replicate_word:
  "space \<notin> set w \<Longrightarrow> js_split (concat (replicate n (w @ [space])) @ s) = replicate n w @ js_split s"
  by (induction n) (simp_all add: js_split_append_space)

lemma js_split_big_text: "js_split big_text = replicate 1000 ''a'' @ [''b'']"
proof -
  have "js_split (concat (replicate 1000 (''a'' @ [space])) @ ''b'') = replicate 1000 ''a'' @ js_split ''b''"
    by (rule js_split_replicate_word) (simp add: space_def)
  then show ?thesis
    by (simp add: big_text_def space_def)
qed

lemma splitTextIntoChunks_big_text: "splitTextIntoChunks big_text 1000 = Some big_chunks"
proof -
  have "groups_of 1000 (replicate 1000 ''a'' @ [''b'']) = [replicate 1000 ''a'', [''b'']]"
    by (simp add: groups_of_step)
  then show ?thesis
    by (simp add: splitTextIntoChunks_closed js_split_big_text big_chunks_def)
qed

lemma list_of_length_2: "length xs = 2 \<Longrightarrow> xs = [xs ! 0, xs ! 1]"
  by (cases xs; cases "tl xs") auto

theorem summarize_joins_chunk_summaries_witness:
  "documents demo_world_big 2 = Some demo_big_doc \<and> doc_userId demo_big_doc = 10
 \<and> Summary_findOne demo_world_big 2 10 = None
 \<and> splitTextIntoChunks (doc_text demo_big_doc) 1000 = Some big_chunks
 \<and> length big_chunks = 2
 \<and> \<not> is_failure (reply_to groq_by_turn (journal demo_world_big) big_chunks 0)
 \<and> \<not> is_failure (reply_to groq_by_turn (journal demo_world_big) big_chunks 1)
 \<and> (\<exists>st'. post_summarize groq_by_turn 9 demo_world_big 10 2 =
             Some (Response 200 (SummaryJson ''first second''), st')
        \<and> journal st' =
             [GroqCall (chunk_request (big_chunks ! 0)), GroqCall (chunk_request (big_chunks ! 1)),
              SummarySave \<lparr>sum_documentId = 2, sum_userId = 10, content = ''first second'',
                           sum_createdAt = 9, updatedAt = 9\<rparr>]
        \<and> summaries st' =
             [\<lparr>sum_documentId = 2, sum_userId = 10, content = ''first second'',
               sum_createdAt = 9, updatedAt = 9\<rparr>])"
proof -
  have doc: "documents demo_world_big 2 = Some demo_big_doc"
    by (simp add: demo_world_big_def)
  have own: "doc_userId demo_big_doc = 10"
    by (simp add: demo_big_doc_def)
  have none: "Summary_findOne demo_world_big 2 10 = None"
    by (simp add: Summary_findOne_def demo_world_big_def)
  have chunks: "splitTextIntoChunks (doc_text demo_big_doc) 1000 = Some big_chunks"
    by (simp add: demo_big_doc_def splitTextIntoChunks_big_text)
  have len: "length big_chunks = 2"
    by (simp add: big_chunks_def)
  have j: "journal demo_world_big = []" "summaries demo_world_big = []"
    by (simp_all add: demo_world_big_def)
  have r0: "reply_to groq_by_turn (journal demo_world_big) big_chunks 0 = GroqCompletion (Some ''first'')"
    by (simp add: reply_to_def history_before_def groq_by_turn_def j)
  have r1: "reply_to groq_by_turn (journal demo_world_big) big_chunks 1 = GroqCompletion (Some ''second'')"
    by (simp add: reply_to_def history_before_def groq_by_turn_def j big_chunks_def)
  have ok: "\<forall>i<length big_chunks. \<not> is_failure (reply_to groq_by_turn (journal demo_world_big) big_chunks i)"
    using r0 r1 by (simp add: len less_2_cases_iff is_failure_def)
  from summarize_joins_chunk_summaries [OF doc own none chunks ok, of 9]
  obtain st' per_chunk where
    run: "post_summarize groq_by_turn 9 demo_world_big 10 2 =
             Some (Response 200 (SummaryJson (js_join per_chunk)), st')"
    and l: "length per_chunk = length big_chunks"
    and nth: "\<forall>i<length big_chunks.
               per_chunk ! i = summary_of_reply
                 (groq_by_turn (journal demo_world_big @
                     map (\<lambda>c. GroqCall (chunk_request c)) (take i big_chunks))
                       (chunk_request (big_chunks ! i)))"
    and jn: "journal st' = journal demo_world_big @ map (\<lambda>c. GroqCall (chunk_request c)) big_chunks
              @ [SummarySave \<lparr>sum_documentId = 2, sum_userId = 10,
                              content = js_join per_chunk, sum_createdAt = 9, updatedAt = 9\<rparr>]"
    and sm: "summaries st' = summaries demo_world_big
              @ [\<lparr>sum_documentId = 2, sum_userId = 10,
                  content = js_join per_chunk, sum_createdAt = 9, updatedAt = 9\<rparr>]"
    by blast
  have p0: "per_chunk ! 0 = ''first''"
    using nth len by (simp add: groq_by_turn_def j summary_of_reply_def or_else_def)
  have "per_chunk ! 1 = summary_of_reply
                 (groq_by_turn (journal demo_world_big @
                     map (\<lambda>c. GroqCall (chunk_request c)) (take 1 big_chunks))
                       (chunk_request (big_chunks ! 1)))"
    using nth len by simp
  then have p1: "per_chunk ! 1 = ''second''"
    by (simp add: groq_by_turn_def j summary_of_reply_def or_else_def big_chunks_def)
  have per: "per_chunk = [''first'', ''second'']"
    using list_of_length_2 [of per_chunk] l len p0 p1 by simp
  have joined: "js_join per_chunk = ''first second''"
    by (simp add: per space_def)
  have "post_summarize groq_by_turn 9 demo_world_big 10 2 =
             Some (Response 200 (SummaryJson ''first second''), st')
        \<and> journal st' =
             [GroqCall (chunk_request (big_chunks ! 0)), GroqCall (chunk_request (big_chunks ! 1)),
              SummarySave \<lparr>sum_documentId = 2, sum_userId = 10, content = ''first second'',
                           sum_createdAt = 9, updatedAt = 9\<rparr>]
        \<and> summaries st' =
             [\<lparr>sum_documentId = 2, sum_userId = 10, content = ''first second'',
               sum_createdAt = 9, updatedAt = 9\<rparr>]"
    using run jn sm unfolding joined by (simp add: j big_chunks_def)
  then show ?thesis
    using doc own none chunks len r0 r1 by (auto simp: is_failure_def)
qed

section \<open>Failure of an upstream call\<close>

lemma post_summarize_starts:
  assumes doc: "documents st documentId = Some d" and own: "doc_userId d = caller"
    and none: "Summary_findOne st documentId caller = None"
    and chunks: "splitTextIntoChunks (doc_text d) 1000 = Some chunks"
  shows "\<exists>r st2 rest. post_summarize groq now st caller documentId = Some (r, st2)
           \<and> journal st2 = journal st @ GroqCall (chunk_request (hd chunks)) # rest"
proof -
  have ne: "chunks \<noteq> []"
    using splitTextIntoChunks_nonempty [OF _ chunks] by simp
  from summarize_chunks_shape [of groq st chunks "[]"] ne
  obtain n r where
    loop: "summarize_chunks groq st chunks [] =
            (r, st\<lparr>journal := journal st @ map (\<lambda>c. GroqCall (chunk_request c)) (take n chunks)\<rparr>)"
    and n: "0 < n"
    by auto
  obtain c cs where c: "chunks = c # cs"
    using ne by (cases chunks) auto
  obtain m where m: "n = Suc m"
    using n by (cases n) auto
  show ?thesis
    using doc own none chunks loop
    by (cases r) (auto simp: post_summarize_def Let_def Summary_save_def c m)
qed

text \<open>
  Claim C6.  When the document exists, the caller owns it, no Summary exists for the pair
  and the upstream call for some chunk fails, summarize answers 500 with the message
  \<open>Summarization failed\<close>; it stops at the first failing chunk (the requests up to and
  including that chunk are the only effects), and documents, summaries, Q&A history and
  files are as before, so nothing of the earlier chunks is kept.  Any later summarize call
  for the same document and caller starts again with the request for the first chunk.
\<close>

theorem summarize_aborts_on_failure:
  assumes "documents st documentId = Some d" and "doc_userId d = caller"
    and "Summary_findOne st documentId caller = None"
    and "splitTextIntoChunks (doc_text d) 1000 = Some chunks"
    and "k < length chunks" and "is_failure (reply_to groq (journal st) chunks k)"
  shows "\<exists>st' j. post_summarize groq now st caller documentId =
             Some (Response 500 (Message ''Summarization failed''), st')
         \<and> summaries st' = summaries st \<and> documents st' = documents st
         \<and> qaHistory st' = qaHistory st \<and> files st' = files st
         \<and> j \<le> k \<and> is_failure (reply_to groq (journal st) chunks j)
         \<and> (\<forall>i<j. \<not> is_failure (reply_to groq (journal st) chunks i))
         \<and> journal st' = journal st @ map (\<lambda>c. GroqCall (chunk_request c)) (take (Suc j) chunks)
         \<and> (\<exists>r2 st2 rest. post_summarize groq2 now2 st' caller documentId = Some (r2, st2)
               \<and> journal st2 = journal st' @ GroqCall (chunk_request (hd chunks)) # rest)"
proof -
  define j where "j = (LEAST i. is_failure (reply_to groq (journal st) chunks i))"
  have jfail: "is_failure (reply_to groq (journal st) chunks j)"
    unfolding j_def using assms(6) by (rule LeastI)
  have jk: "j \<le> k"
    unfolding j_def using assms(6) by (rule Least_le)
  have before: "\<not> is_failure (reply_to groq (journal st) chunks i)" if "i < j" for i
    using that not_less_Least unfolding j_def by blast
  have jlen: "j < length chunks"
    using jk assms(5) by simp
  let ?st' = "st\<lparr>journal := journal st @ map (\<lambda>c. GroqCall (chunk_request c)) (take (Suc j) chunks)\<rparr>"
  from summarize_chunks_first_failure [OF jlen jfail before, of "[]"]
  obtain err where loop: "summarize_chunks groq st chunks [] = (Inl err, ?st')"
    by blast
  have run: "post_summarize groq now st caller documentId =
               Some (Response 500 (Message ''Summarization failed''), ?st')"
    using assms(1-4) loop by (simp add: post_summarize_def)
  have again: "\<exists>r2 st2 rest. post_summarize groq2 now2 ?st' caller documentId = Some (r2, st2)
               \<and> journal st2 = journal ?st' @ GroqCall (chunk_request (hd chunks)) # rest"
    by (rule post_summarize_starts [of ?st' documentId d caller chunks])
       (use assms(1-4) in \<open>simp_all add: Summary_findOne_def\<close>)
  show ?thesis
    apply (rule exI [of _ ?st'])
    apply (rule exI [of _ j])
    using run jk jfail before again by simp
qed

theorem summarize_aborts_on_failure_witness:
  "documents demo_world_big 2 = Some demo_big_doc \<and> doc_userId demo_big_doc = 10
 \<and> Summary_findOne demo_world_big 2 10 = None
 \<and> splitTextIntoChunks (doc_text demo_big_doc) 1000 = Some big_chunks
 \<and> 1 < length big_chunks
 \<and> is_failure (reply_to groq_fails_second (journal demo_world_big) big_chunks 1)
 \<and> (\<exists>st'. post_summarize groq_fails_second 9 demo_world_big 10 2 =
             Some (Response 500 (Message ''Summarization failed''), st')
        \<and> summaries st' = []
        \<and> journal st' =
             [GroqCall (chunk_request (big_chunks ! 0)), GroqCall (chunk_request (big_chunks ! 1))]
        \<and> (\<exists>r2 st2 rest. post_summarize (groq_fixed ''S'') 12 st' 10 2 = Some (r2, st2)
               \<and> journal st2 = journal st' @ GroqCall (chunk_request (big_chunks ! 0)) # rest))"
proof -
  have doc: "documents demo_world_big 2 = Some demo_big_doc"
    by (simp add: demo_world_big_def)
  have own: "doc_userId demo_big_doc = 10"
    by (simp add: demo_big_doc_def)
  have none: "Summary_findOne demo_world_big 2 10 = None"
    by (simp add: Summary_findOne_def demo_world_big_def)
  have chunks: "splitTextIntoChunks (doc_text demo_big_doc) 1000 = Some big_chunks"
    by (simp add: demo_big_doc_def splitTextIntoChunks_big_text)
  have len: "1 < length big_chunks"
    by (simp add: big_chunks_def)
  have j: "journal demo_world_big = []" "summaries demo_world_big = []"
    by (simp_all add: demo_world_big_def)
  have r0: "\<not> is_failure (reply_to groq_fails_second (journal demo_world_big) big_chunks 0)"
    by (simp add: reply_to_def history_before_def groq_fails_second_def j is_failure_def)
  have r1: "is_failure (reply_to groq_fails_second (journal demo_world_big) big_chunks 1)"
    by (simp add: reply_to_def history_before_def groq_fails_second_def j big_chunks_def
        is_failure_def)
  from summarize_aborts_on_failure [OF doc own none chunks len r1, of 9 "groq_fixed ''S''" 12]
  obtain st' k where
    run: "post_summarize groq_fails_second 9 demo_world_big 10 2 =
             Some (Response 500 (Message ''Summarization failed''), st')"
    and sm: "summaries st' = summaries demo_world_big"
    and k: "k \<le> 1" "is_failure (reply_to groq_fails_second (journal demo_world_big) big_chunks k)"
    and jn: "journal st' = journal demo_world_big
               @ map (\<lambda>c. GroqCall (chunk_request c)) (take (Suc k) big_chunks)"
    and again: "\<exists>r2 st2 rest. post_summarize (groq_fixed ''S'') 12 st' 10 2 = Some (r2, st2)
               \<and> journal st2 = journal st' @ GroqCall (chunk_request (hd big_chunks)) # rest"
    by blast
  have "k \<noteq> 0"
  proof
    assume "k = 0"
    with k(2) r0 show False by simp
  qed
  with k(1) have k1: "k = 1" by simp
  have "post_summarize groq_fails_second 9 demo_world_big 10 2 =
             Some (Response 500 (Message ''Summarization failed''), st')
        \<and> summaries st' = []
        \<and> journal st' =
             [GroqCall (chunk_request (big_chunks ! 0)), GroqCall (chunk_request (big_chunks ! 1))]
        \<and> (\<exists>r2 st2 rest. post_summarize (groq_fixed ''S'') 12 st' 10 2 = Some (r2, st2)
               \<and> journal st2 = journal st' @ GroqCall (chunk_request (big_chunks ! 0)) # rest)"
    using run sm jn again unfolding k1 by (simp add: j big_chunks_def)
  then show ?thesis
    using doc own none chunks len r1 by blast
qed

section \<open>Idempotence of summarize\<close>









section \<open>Chunking never yields an empty list\<close>

lemma splitTextIntoChunks_empty: "0 < n \<Longrightarrow> splitTextIntoChunks [] n = Some [[]]"
  by (simp add: splitTextIntoChunks_closed groups_of_step)

lemma post_summarize_empty_text:
  assumes "documents st documentId = Some d" and "doc_userId d = caller"
    and "doc_text d = []" and "Summary_findOne st documentId caller = None"
  shows "post_summarize groq now st caller documentId =
     (case groq (journal st) (SummarizeReq []) of
        GroqFailure msg \<Rightarrow>
          Some (Response 500 (Message ''Summarization failed''),
                st\<lparr>journal := journal st @ [GroqCall (SummarizeReq [])]\<rparr>)
      | GroqCompletion c \<Rightarrow>
          Some (Response 200 (SummaryJson (or_else c ''Summary not available'')),
                st\<lparr>summaries := summaries st @
                     [\<lparr>sum_documentId = documentId, sum_userId = caller,
                       content = or_else c ''Summary not available'',
                       sum_createdAt = now, updatedAt = now\<rparr>],
                   journal := journal st @
                     [GroqCall (SummarizeReq []),
                      SummarySave \<lparr>sum_documentId = documentId, sum_userId = caller,
                                   content = or_else c ''Summary not available'',
                                   sum_createdAt = now, updatedAt = now\<rparr>]\<rparr>))"
  using assms
  by (simp add: post_summarize_def splitTextIntoChunks_empty summarizeText_eq chunk_request_def
      Let_def Summary_validate_def Summary_save_def or_else_nonempty
      split: groq_response.splits)

text \<open>
  Claim C10.  For every text and every chunk size of at least 1, splitTextIntoChunks
  returns, and returns a non-empty list; for the empty text it returns the single chunk
  \<open>""\<close>.  So summarize on an owned document with empty text and no Summary yet sends
  exactly one upstream request, for the empty chunk; when that call succeeds the route
  answers 200 and appends one Summary whose content is the summary of that chunk, and when
  it fails the route answers 500 and saves nothing.
\<close>

theorem chunks_never_empty:
  "(0 < n \<longrightarrow> (\<exists>chunks. splitTextIntoChunks txt n = Some chunks \<and> chunks \<noteq> []))
 \<and> (0 < n \<longrightarrow> splitTextIntoChunks [] n = Some [[]])
 \<and> (documents st documentId = Some d \<and> doc_userId d = caller \<and> doc_text d = []
      \<and> Summary_findOne st documentId caller = None \<longrightarrow>
      (is_failure (groq (journal st) (SummarizeReq [])) \<longrightarrow>
         post_summarize groq now st caller documentId =
           Some (Response 500 (Message ''Summarization failed''),
                 st\<lparr>journal := journal st @ [GroqCall (SummarizeReq [])]\<rparr>))
    \<and> (\<not> is_failure (groq (journal st) (SummarizeReq [])) \<longrightarrow>
         post_summarize groq now st caller documentId =
           Some (Response 200 (SummaryJson (summary_of_reply (groq (journal st) (SummarizeReq [])))),
                 st\<lparr>summaries := summaries st @
                      [\<lparr>sum_documentId = documentId, sum_userId = caller,
                        content = summary_of_reply (groq (journal st) (SummarizeReq [])),
                        sum_createdAt = now, updatedAt = now\<rparr>],
                    journal := journal st @
                      [GroqCall (SummarizeReq []),
                       SummarySave \<lparr>sum_documentId = documentId, sum_userId = caller,
                                    content = summary_of_reply (groq (journal st) (SummarizeReq [])),
                                    sum_createdAt = now, updatedAt = now\<rparr>]\<rparr>)))"
proof (intro conjI impI)
  assume n: "0 < n"
  then have "splitTextIntoChunks txt n = Some (map js_join (groups_of n (js_split txt)))"
    by (rule splitTextIntoChunks_closed)
  moreover have "map js_join (groups_of n (js_split txt)) \<noteq> []"
    using n js_split_nonempty [of "txt"] by (simp add: groups_of_eq_Nil)
  ultimately show "\<exists>chunks. splitTextIntoChunks txt n = Some chunks \<and> chunks \<noteq> []"
    by blast
next
  assume "0 < n"
  then show "splitTextIntoChunks [] n = Some [[]]"
    by (rule splitTextIntoChunks_empty)
next
  assume h: "documents st documentId = Some d \<and> doc_userId d = caller \<and> doc_text d = []
      \<and> Summary_findOne st documentId caller = None"
    and f: "is_failure (groq (journal st) (SummarizeReq []))"
  from f obtain msg where "groq (journal st) (SummarizeReq []) = GroqFailure msg"
    by (cases "groq (journal st) (SummarizeReq [])") (simp_all add: is_failure_def)
  then show "post_summarize groq now st caller documentId =
           Some (Response 500 (Message ''Summarization failed''),
                 st\<lparr>journal := journal st @ [GroqCall (SummarizeReq [])]\<rparr>)"
    using h post_summarize_empty_text [of st documentId d caller groq now] by simp
next
  assume h: "documents st documentId = Some d \<and> doc_userId d = caller \<and> doc_text d = []
      \<and> Summary_findOne st documentId caller = None"
    and f: "\<not> is_failure (groq (journal st) (SummarizeReq []))"
  from f obtain c where "groq (journal st) (SummarizeReq []) = GroqCompletion c"
    by (cases "groq (journal st) (SummarizeReq [])") (simp_all add: is_failure_def)
  then show "post_summarize groq now st caller documentId =
           Some (Response 200 (SummaryJson (summary_of_reply (groq (journal st) (SummarizeReq [])))),
                 st\<lparr>summaries := summaries st @
                      [\<lparr>sum_documentId = documentId, sum_userId = caller,
                        content = summary_of_reply (groq (journal st) (SummarizeReq [])),
                        sum_createdAt = now, updatedAt = now\<rparr>],
                    journal := journal st @
                      [GroqCall (SummarizeReq []),
                       SummarySave \<lparr>sum_documentId = documentId, sum_userId = caller,
                                    content = summary_of_reply (groq (journal st) (SummarizeReq [])),
                                    sum_createdAt = now, updatedAt = now\<rparr>]\<rparr>)"
    using h post_summarize_empty_text [of st documentId d caller groq now]
    by (simp add: summary_of_reply_def)
qed

theorem chunks_never_empty_witness:
  "(0::nat) < 1000
 \<and> (\<exists>chunks. splitTextIntoChunks ''hello world'' 1000 = Some chunks \<and> chunks \<noteq> [])
 \<and> splitTextIntoChunks [] 1000 = Some [[]]
 \<and> documents demo_world_empty 3 = Some demo_empty_doc \<and> doc_userId demo_empty_doc = 10
 \<and> doc_text demo_empty_doc = [] \<and> Summary_findOne demo_world_empty 3 10 = None
 \<and> is_failure (groq_down (journal demo_world_empty) (SummarizeReq []))
 \<and> post_summarize groq_down 4 demo_world_empty 10 3 =
      Some (Response 500 (Message ''Summarization failed''),
            demo_world_empty\<lparr>journal := [GroqCall (SummarizeReq [])]\<rparr>)
 \<and> \<not> is_failure (groq_fixed ''S'' (journal demo_world_empty) (SummarizeReq []))
 \<and> post_summarize (groq_fixed ''S'') 4 demo_world_empty 10 3 =
      Some (Response 200 (SummaryJson ''S''),
            demo_world_empty
              \<lparr>summaries := [\<lparr>sum_documentId = 3, sum_userId = 10, content = ''S'',
                              sum_createdAt = 4, updatedAt = 4\<rparr>],
               journal := [GroqCall (SummarizeReq []),
                           SummarySave \<lparr>sum_documentId = 3, sum_userId = 10, content = ''S'',
                                        sum_createdAt = 4, updatedAt = 4\<rparr>]\<rparr>)"
proof -
  have h: "documents demo_world_empty 3 = Some demo_empty_doc \<and> doc_userId demo_empty_doc = 10
      \<and> doc_text demo_empty_doc = [] \<and> Summary_findOne demo_world_empty 3 10 = None"
    by (simp add: demo_world_empty_def demo_empty_doc_def Summary_findOne_def)
  have j: "journal demo_world_empty = []" "summaries demo_world_empty = []"
    by (simp_all add: demo_world_empty_def)
  have f: "is_failure (groq_down (journal demo_world_empty) (SummarizeReq []))"
    by (simp add: groq_down_def is_failure_def)
  have g: "\<not> is_failure (groq_fixed ''S'' (journal demo_world_empty) (SummarizeReq []))"
    "summary_of_reply (groq_fixed ''S'' (journal demo_world_empty) (SummarizeReq [])) = ''S''"
    by (simp_all add: groq_fixed_def is_failure_def summary_of_reply_def or_else_def)
  note D = chunks_never_empty
      [of 1000 "''hello world''" demo_world_empty 3 demo_empty_doc 10 groq_down 4]
  note S = chunks_never_empty
      [of 1000 "''hello world''" demo_world_empty 3 demo_empty_doc 10 "groq_fixed ''S''" 4]
  have c1: "\<exists>chunks. splitTextIntoChunks ''hello world'' 1000 = Some chunks \<and> chunks \<noteq> []"
    using D by simp
  have c2: "splitTextIntoChunks [] 1000 = Some [[]]"
    using D by simp
  have c3: "post_summarize groq_down 4 demo_world_empty 10 3 =
      Some (Response 500 (Message ''Summarization failed''),
            demo_world_empty\<lparr>journal := [GroqCall (SummarizeReq [])]\<rparr>)"
    using D h f by (simp add: j)
  have c4: "post_summarize (groq_fixed ''S'') 4 demo_world_empty 10 3 =
      Some (Response 200 (SummaryJson ''S''),
            demo_world_empty
              \<lparr>summaries := [\<lparr>sum_documentId = 3, sum_userId = 10, content = ''S'',
                              sum_createdAt = 4, updatedAt = 4\<rparr>],
               journal := [GroqCall (SummarizeReq []),
                           SummarySave \<lparr>sum_documentId = 3, sum_userId = 10, content = ''S'',
                                        sum_createdAt = 4, updatedAt = 4\<rparr>]\<rparr>)"
    using S h g by (simp add: j)
  show ?thesis
    using c1 c2 c3 c4 h f g(1) by simp
qed

section \<open>Chunking by space-separated pieces\<close>

lemma ws_words_from_lines:
  "ws_words_from [] (concat (replicate n [CHR ''a'', CHR 0x0A]) @ s) =
     replicate n ''a'' @ ws_words_from [] s"
  by (induction n) (simp_all add: is_whitespace_def)

lemma ws_words_lines_text: "length (ws_words lines_text) = 2500"
  by (simp add: ws_words_def lines_text_def ws_words_from_lines is_whitespace_def)

lemma spaceless_concat_replicate:
  "space \<notin> set w \<Longrightarrow> space \<notin> set (concat (replicate n w))"
  by (induction n) auto

lemma js_split_lines_text: "js_split lines_text = [lines_text]"
proof -
  have "space \<notin> set (concat (replicate 2499 [CHR ''a'', CHR 0x0A]))"
    by (rule spaceless_concat_replicate) (simp add: space_def)
  then have "space \<notin> set lines_text"
    by (simp add: lines_text_def space_def)
  then show ?thesis
    by (rule js_split_spaceless)
qed

text \<open>
  Claim C3 as stated fails: a text of exactly 2500 whitespace-separated words, one per
  line, comes back as a single chunk holding all 2500 words, not as three chunks of 1000,
  1000 and 500 words.
\<close>

theorem whitespace_words_counterexample:
  "length (ws_words lines_text) = 2500 \<and> splitTextIntoChunks lines_text 1000 = Some [lines_text]"
proof -
  have "groups_of 1000 [lines_text] = [[lines_text]]"
    by (simp add: groups_of_step)
  then have "splitTextIntoChunks lines_text 1000 = Some [lines_text]"
    by (simp add: splitTextIntoChunks_closed js_split_lines_text)
  then show ?thesis
    using ws_words_lines_text by simp
qed

lemma js_split_js_join_group:
  assumes "0 < n" and "g \<in> set (groups_of n (js_split s))"
  shows "js_split (js_join g) = g"
proof (rule js_split_join)
  show "g \<noteq> []"
    using groups_of_member [OF assms] by simp
next
  fix w
  assume "w \<in> set g"
  then have "w \<in> set (js_split s)"
    using groups_of_member [OF assms] by auto
  then show "space \<notin> set w"
    by (rule js_split_no_space)
qed

lemma map_js_split_chunks:
  "0 < n \<Longrightarrow> map js_split (map js_join (groups_of n (js_split s))) = groups_of n (js_split s)"
  by (simp add: map_idI js_split_js_join_group)

lemma groups_of_2500:
  assumes "length xs = 2500"
  shows "map length (groups_of 1000 xs) = [1000, 1000, 500]"
proof -
  have 1: "groups_of 1000 xs = take 1000 xs # groups_of 1000 (drop 1000 xs)"
    using assms by (intro groups_of_step) auto
  have 2: "groups_of 1000 (drop 1000 xs) =
             take 1000 (drop 1000 xs) # groups_of 1000 (drop 1000 (drop 1000 xs))"
    using assms by (intro groups_of_step) auto
  have 3: "groups_of 1000 (drop 1000 (drop 1000 xs)) =
             take 1000 (drop 1000 (drop 1000 xs)) #
             groups_of 1000 (drop 1000 (drop 1000 (drop 1000 xs)))"
    using assms by (intro groups_of_step) auto
  have 4: "drop 1000 (drop 1000 (drop 1000 xs)) = []"
    using assms by simp
  show ?thesis
    unfolding 1 2 3 4 using assms by simp
qed

text \<open>
  Claim C3, amended.  For a chunk size of at least 1, splitTextIntoChunks cuts the text at
  every single space character and returns the resulting pieces (possibly empty; tabs and
  line breaks do not separate), in order, in chunks of exactly \<open>n\<close> pieces, only the last
  chunk possibly shorter (but never empty); joining all chunks with single spaces gives
  back the text itself.  In particular a text of exactly 2500 space-separated pieces gives,
  with chunk size 1000, three chunks of 1000, 1000 and 500 pieces.
\<close>

theorem chunks_of_space_separated_pieces:
  assumes "0 < n"
  shows "\<exists>chunks. splitTextIntoChunks txt n = Some chunks
         \<and> concat (map js_split chunks) = js_split txt
         \<and> (\<forall>c \<in> set (butlast chunks). length (js_split c) = n)
         \<and> 0 < length (js_split (last chunks)) \<and> length (js_split (last chunks)) \<le> n
         \<and> js_join chunks = txt
         \<and> (n = 1000 \<and> length (js_split txt) = 2500 \<longrightarrow>
              map (\<lambda>c. length (js_split c)) chunks = [1000, 1000, 500])"
proof -
  let ?ws = "js_split txt"
  let ?gs = "groups_of n ?ws"
  let ?chunks = "map js_join ?gs"
  have run: "splitTextIntoChunks txt n = Some ?chunks"
    using assms by (rule splitTextIntoChunks_closed)
  have unjoin: "map js_split ?chunks = ?gs"
    using assms by (rule map_js_split_chunks)
  have gs_ne: "?gs \<noteq> []"
    using assms js_split_nonempty [of "txt"] by (simp add: groups_of_eq_Nil)
  have a: "concat (map js_split ?chunks) = ?ws"
    unfolding unjoin using assms by (rule concat_groups_of)
  have b: "\<forall>c \<in> set (butlast ?chunks). length (js_split c) = n"
  proof
    fix c
    assume "c \<in> set (butlast ?chunks)"
    moreover have "butlast ?chunks = map js_join (butlast ?gs)"
      by (rule map_butlast [symmetric])
    ultimately obtain g where g: "g \<in> set (butlast ?gs)" and c: "c = js_join g"
      by auto
    have "g \<in> set ?gs"
      using g by (rule in_set_butlastD)
    then have "js_split c = g"
      unfolding c using assms by (intro js_split_js_join_group)
    then show "length (js_split c) = n"
      using groups_of_butlast [OF assms g] by simp
  qed
  have last_in: "last ?gs \<in> set ?gs"
    using gs_ne by simp
  have "js_split (last ?chunks) = last ?gs"
    using gs_ne js_split_js_join_group [OF assms last_in] by (simp add: last_map)
  then have c: "0 < length (js_split (last ?chunks)) \<and> length (js_split (last ?chunks)) \<le> n"
    using groups_of_member [OF assms last_in] by simp
  have d: "js_join ?chunks = txt"
    using js_join_groups_of [OF assms js_split_nonempty, of "txt"] by (simp add: js_join_split)
  have e: "map (\<lambda>c. length (js_split c)) ?chunks = [1000, 1000, 500]"
    if "n = 1000 \<and> length ?ws = 2500"
  proof -
    have "map (\<lambda>c. length (js_split c)) ?chunks = map length (map js_split ?chunks)"
      by simp
    also have "\<dots> = map length ?gs"
      unfolding unjoin ..
    finally show ?thesis
      using that groups_of_2500 [of ?ws] by simp
  qed
  show ?thesis
    apply (rule exI [of _ ?chunks])
    using run a b c d e by simp
qed

lemma js_split_spaced_text: "js_split spaced_text = replicate 2500 ''a''"
proof -
  have "js_split (concat (replicate 2499 (''a'' @ [space])) @ ''a'') =
          replicate 2499 ''a'' @ js_split ''a''"
    by (rule js_split_replicate_word) (simp add: space_def)
  then have "js_split spaced_text = replicate 2499 ''a'' @ [''a'']"
    by (simp add: spaced_text_def space_def)
  also have "\<dots> = replicate (Suc 2499) ''a''"
    by (simp only: replicate_append_same replicate_Suc)
  finally show ?thesis by simp
qed

theorem chunks_of_space_separated_pieces_witness:
  "(0::nat) < 1000 \<and> length (js_split spaced_text) = 2500
 \<and> (\<exists>chunks. splitTextIntoChunks spaced_text 1000 = Some chunks
       \<and> map (\<lambda>c. length (js_split c)) chunks = [1000, 1000, 500]
       \<and> concat (map js_split chunks) = js_split spaced_text
       \<and> js_join chunks = spaced_text)"
proof -
  have len: "length (js_split spaced_text) = 2500"
    by (simp add: js_split_spaced_text)
  from chunks_of_space_separated_pieces [of 1000 spaced_text] len
  show ?thesis by auto
qed

section \<open>Upload of a file that is neither PDF nor plain text\<close>

lemma post_upload_text_ok:
  "documents st newId = None \<Longrightarrow>
   post_upload serverDir pdf stored_at now newId st caller (Some text_upload) =
     (Response 200
        (UploadJson ''File uploaded successfully'' newId
           \<lparr>filename = ''hello.txt'',
            filepath = uploadDir serverDir @ ''/'' @ storage_filename stored_at text_upload,
            doc_text = ''Hello world'', doc_userId = caller, uploadDate = now, fileSize = 11,
            mimeType = ''text/plain''\<rparr>),
      st\<lparr>files := (files st)(uploadDir serverDir @ ''/'' @ storage_filename stored_at text_upload
                                 \<mapsto> ''Hello world''),
         journal := journal st @
           [FileWrite (uploadDir serverDir @ ''/'' @ storage_filename stored_at text_upload),
            DocumentSave newId],
         documents := (documents st)(newId \<mapsto>
           \<lparr>filename = ''hello.txt'',
            filepath = uploadDir serverDir @ ''/'' @ storage_filename stored_at text_upload,
            doc_text = ''Hello world'', doc_userId = caller, uploadDate = now, fileSize = 11,
            mimeType = ''text/plain''\<rparr>)\<rparr>)"
  by (simp add: post_upload_def upload_single_def fileFilter_def fileSizeLimit_def
      upload_handler_def text_upload_def Let_def Document_validate_def uploadDir_def)

text \<open>
  Claim C9.  The handler's own check would answer 400 for a file that is neither PDF nor
  plain text, but that check is never reached: the file filter of the upload middleware
  rejects such a file first, with an error that goes to the framework's default error
  handler.  The whole route therefore answers 500 for an \<open>image/png\<close> upload; the world,
  and so the set of documents, is unchanged.
\<close>

theorem upload_png_answers_500:
  "post_upload serverDir pdf stored_at now newId st caller (Some png_upload) =
     (Response 500 (ErrorPage ''Only PDF and text files are allowed''), st)
 \<and> upload_handler pdf now newId st caller (Some (png_upload, p)) =
     (Response 400 (Message ''Only PDF and text files are allowed''), st)"
  by (simp add: post_upload_def upload_single_def fileFilter_def express_default_error_def
      upload_handler_def png_upload_def)

end
